theory Spec2Isabelle
  imports Complex_Main "HOL-Library.Product_Lexorder" "HOL-Library.Sublist"
begin

section \<open>Values, exceptions and the temporary directory\<close>

text \<open>
  The repository holds two variants of one Flask application: \<^verbatim>\<open>app.py\<close> and
  \<^verbatim>\<open>backend/app.py\<close>. Definitions taken from the first are prefixed \<open>app_\<close>, those
  taken from the second \<open>backend_\<close>; what both share keeps the source's name.

  A request body is the value \<^verbatim>\<open>request.get_json()\<close> returns. JSON numbers are taken as
  integers: the handlers only test them for truth and pass them on.
  A string is a list of characters, one per code point below 256.
\<close>

datatype json = JNull | JBool bool | JNum int | JStr string | JArr "json list"
  | JObj "(string \<times> json) list"

text \<open>Python's truth value of a parsed body or field (\<^verbatim>\<open>if not data\<close>, \<^verbatim>\<open>if not url\<close>).\<close>

fun truthy :: "json \<Rightarrow> bool" where
  "truthy JNull = False"
| "truthy (JBool b) = b"
| "truthy (JNum n) = (n \<noteq> 0)"
| "truthy (JStr s) = (s \<noteq> [])"
| "truthy (JArr xs) = (xs \<noteq> [])"
| "truthy (JObj kvs) = (kvs \<noteq> [])"

text \<open>
  The exceptions the handlers can meet. \<open>DownloadError\<close> is the collaborator's own
  (\<^verbatim>\<open>yt_dlp.DownloadError\<close>) with its message; \<open>OtherError\<close> is any other exception the
  collaborator raises; the rest are Python's.
\<close>

datatype exn = DownloadError string | OtherError string | AttributeError | TypeError
  | FileExistsError | FileNotFoundError | NotADirectoryError | IsADirectoryError
  | PermissionError

text \<open>
  \<^verbatim>\<open>data.get(k, d)\<close>: a dictionary answers, anything else has no attribute \<^verbatim>\<open>get\<close>.
  The list of a \<open>JObj\<close> holds the items of a Python dict, so its keys are distinct.
\<close>

fun dict_get :: "json \<Rightarrow> string \<Rightarrow> json \<Rightarrow> exn + json" where
  "dict_get (JObj kvs) k d = Inr (case map_of kvs k of None \<Rightarrow> d | Some v \<Rightarrow> v)"
| "dict_get _ k d = Inl AttributeError"

text \<open>
  \<^verbatim>\<open>s in url\<close> for a string \<open>s\<close>: substring test on a string, membership in a list, key
  membership in a dict, \<^verbatim>\<open>TypeError\<close> on a number, a boolean or \<^verbatim>\<open>None\<close>.
\<close>

fun py_in :: "string \<Rightarrow> json \<Rightarrow> exn + bool" where
  "py_in s (JStr t) = Inr (sublist s t)"
| "py_in s (JArr xs) = Inr (JStr s \<in> set xs)"
| "py_in s (JObj kvs) = Inr (s \<in> fst ` set kvs)"
| "py_in s _ = Inl TypeError"

subsection \<open>The OS temporary directory\<close>

text \<open>
  The shared state is the OS temporary directory: a listing of entries with distinct
  names. An entry is a directory, a regular file or something else; \<open>e_removable\<close>
  says whether the OS lets this process remove it (in a shared, sticky \<^verbatim>\<open>/tmp\<close> the
  entries of other users are not). A directory's items are what \<^verbatim>\<open>os.listdir\<close>
  returns, each with its byte size (\<^verbatim>\<open>os.path.getsize\<close>) and whether it is a regular
  file (\<^verbatim>\<open>os.path.isfile\<close>). Times are seconds, as \<^verbatim>\<open>time.time()\<close> and
  \<^verbatim>\<open>st_mtime\<close> give them.
\<close>

datatype kind = Dir | File | Other

record dir_item =
  item_name :: string
  item_size :: nat
  item_is_file :: bool

record entry =
  e_name :: string
  e_kind :: kind
  e_mtime :: real
  e_removable :: bool
  e_items :: "dir_item list"

type_synonym fs = "entry list"

definition lookup :: "string \<Rightarrow> fs \<Rightarrow> entry option" where
  "lookup path fs = find (\<lambda>e. e_name e = path) fs"

definition remove_path :: "string \<Rightarrow> fs \<Rightarrow> fs" where
  "remove_path path fs = filter (\<lambda>e. e_name e \<noteq> path) fs"

text \<open>\<^verbatim>\<open>temp_dir.glob(prefix + "*")\<close>: the names that start with the prefix.\<close>

definition glob :: "string \<Rightarrow> fs \<Rightarrow> string list" where
  "glob pre fs = filter (prefix pre) (map e_name fs)"

text \<open>
  \<^verbatim>\<open>shutil.rmtree(path, ignore_errors=...)\<close>. It fails on a path that is missing, is
  not a directory, or that the OS refuses to remove; with \<^verbatim>\<open>ignore_errors=True\<close> the
  failure is swallowed and the tree is left as it is. The result is the exception
  raised, if any, and the directory listing afterwards.
\<close>

definition rmtree :: "string \<Rightarrow> bool \<Rightarrow> fs \<Rightarrow> exn option \<times> fs" where
  "rmtree path ignore_errors fs =
     (case lookup path fs of
        None \<Rightarrow> (if ignore_errors then None else Some FileNotFoundError, fs)
      | Some e \<Rightarrow>
          if e_kind e \<noteq> Dir
          then (if ignore_errors then None else Some NotADirectoryError, fs)
          else if e_removable e then (None, remove_path path fs)
          else (if ignore_errors then None else Some PermissionError, fs))"

text \<open>
  \<^verbatim>\<open>Path.unlink(missing_ok=...)\<close>: removes a file; \<^verbatim>\<open>missing_ok\<close> only forgives a
  missing path, so a directory or a refusal of the OS still raises.
\<close>

definition unlink :: "string \<Rightarrow> bool \<Rightarrow> fs \<Rightarrow> exn option \<times> fs" where
  "unlink path missing_ok fs =
     (case lookup path fs of
        None \<Rightarrow> (if missing_ok then None else Some FileNotFoundError, fs)
      | Some e \<Rightarrow>
          if e_kind e = Dir then (Some IsADirectoryError, fs)
          else if e_removable e then (None, remove_path path fs)
          else (Some PermissionError, fs))"

text \<open>
  \<^verbatim>\<open>tempfile.mkdtemp(prefix=...)\<close>: a new, empty directory owned by the process. The
  random part of the name is the OS's choice, hence a parameter; with no usable name
  left \<^verbatim>\<open>mkdtemp\<close> raises \<^verbatim>\<open>FileExistsError\<close>.
\<close>

definition new_dir :: "string \<Rightarrow> real \<Rightarrow> dir_item list \<Rightarrow> entry" where
  "new_dir name now items =
     \<lparr>e_name = name, e_kind = Dir, e_mtime = now, e_removable = True, e_items = items\<rparr>"

definition mkdtemp :: "string \<Rightarrow> string \<Rightarrow> real \<Rightarrow> fs \<Rightarrow> exn + (string \<times> fs)" where
  "mkdtemp pre random_part now fs =
     (let name = pre @ random_part in
      if name \<in> set (map e_name fs) then Inl FileExistsError
      else Inr (name, fs @ [new_dir name now []]))"

definition listdir :: "string \<Rightarrow> fs \<Rightarrow> exn + dir_item list" where
  "listdir path fs =
     (case lookup path fs of
        None \<Rightarrow> Inl FileNotFoundError
      | Some e \<Rightarrow> if e_kind e = Dir then Inr (e_items e) else Inl NotADirectoryError)"

text \<open>What the collaborator leaves in the download directory.\<close>

definition write_items :: "string \<Rightarrow> dir_item list \<Rightarrow> fs \<Rightarrow> fs" where
  "write_items path items fs =
     map (\<lambda>e. if e_name e = path then e\<lparr>e_items := items\<rparr> else e) fs"

section \<open>The Background Sweeper\<close>

text \<open>
  One pass of \<^verbatim>\<open>cleanup_old_files\<close> in \<^verbatim>\<open>app.py\<close>. The first loop visits the names
  \<^verbatim>\<open>glob("yt_download_*")\<close> listed; a name that is a directory older than 3600
  seconds is removed with \<^verbatim>\<open>rmtree(ignore_errors=True)\<close>. \<^verbatim>\<open>is_dir()\<close> is false for
  a path that is gone. The result's first part is the exception that ended the pass.
\<close>

fun app_sweep_dirs :: "real \<Rightarrow> string list \<Rightarrow> fs \<Rightarrow> exn option \<times> fs" where
  "app_sweep_dirs current_time [] fs = (None, fs)"
| "app_sweep_dirs current_time (p # ps) fs =
     (case lookup p fs of
        None \<Rightarrow> app_sweep_dirs current_time ps fs
      | Some e \<Rightarrow>
          if e_kind e = Dir \<and> current_time - e_mtime e > 3600
          then (case rmtree p True fs of
                  (Some x, fs') \<Rightarrow> (Some x, fs')
                | (None, fs') \<Rightarrow> app_sweep_dirs current_time ps fs')
          else app_sweep_dirs current_time ps fs)"

text \<open>The second loop: regular files \<^verbatim>\<open>tmp*\<close> older than 3600 seconds are unlinked.\<close>

fun app_sweep_files :: "real \<Rightarrow> string list \<Rightarrow> fs \<Rightarrow> exn option \<times> fs" where
  "app_sweep_files current_time [] fs = (None, fs)"
| "app_sweep_files current_time (p # ps) fs =
     (case lookup p fs of
        None \<Rightarrow> app_sweep_files current_time ps fs
      | Some e \<Rightarrow>
          if e_kind e = File \<and> current_time - e_mtime e > 3600
          then (case unlink p True fs of
                  (Some x, fs') \<Rightarrow> (Some x, fs')
                | (None, fs') \<Rightarrow> app_sweep_files current_time ps fs')
          else app_sweep_files current_time ps fs)"

text \<open>
  The body of the \<^verbatim>\<open>try\<close>: both loops, the second only when the first did not raise.
  The exception returned is the one \<^verbatim>\<open>except Exception\<close> catches and prints.
\<close>

definition app_sweep :: "real \<Rightarrow> fs \<Rightarrow> exn option \<times> fs" where
  "app_sweep current_time fs =
     (case app_sweep_dirs current_time (glob ''yt_download_'' fs) fs of
        (Some x, fs1) \<Rightarrow> (Some x, fs1)
      | (None, fs1) \<Rightarrow> app_sweep_files current_time (glob ''tmp'' fs1) fs1)"

text \<open>
  \<^verbatim>\<open>while True\<close>: the loop never returns. Its run is given by the clock readings of
  the passes made so far; a pass that raised is followed by the next one like any other.
\<close>

fun app_cleanup_old_files :: "real list \<Rightarrow> fs \<Rightarrow> fs" where
  "app_cleanup_old_files [] fs = fs"
| "app_cleanup_old_files (current_time # later) fs =
     app_cleanup_old_files later (snd (app_sweep current_time fs))"

text \<open>
  The pass of \<^verbatim>\<open>backend/app.py\<close>: every listed name older than 3600 seconds is
  unlinked, whatever it is; \<^verbatim>\<open>stat()\<close> raises on a path that is gone.
\<close>

fun backend_sweep :: "real \<Rightarrow> string list \<Rightarrow> fs \<Rightarrow> exn option \<times> fs" where
  "backend_sweep current_time [] fs = (None, fs)"
| "backend_sweep current_time (p # ps) fs =
     (case lookup p fs of
        None \<Rightarrow> (Some FileNotFoundError, fs)
      | Some e \<Rightarrow>
          if current_time - e_mtime e > 3600
          then (case unlink p True fs of
                  (Some x, fs') \<Rightarrow> (Some x, fs')
                | (None, fs') \<Rightarrow> backend_sweep current_time ps fs')
          else backend_sweep current_time ps fs)"

fun backend_cleanup_old_files :: "real list \<Rightarrow> fs \<Rightarrow> fs" where
  "backend_cleanup_old_files [] fs = fs"
| "backend_cleanup_old_files (current_time # later) fs =
     backend_cleanup_old_files later
       (snd (backend_sweep current_time (glob ''yt_download_'' fs) fs))"

text \<open>
  The entries the first loop of a pass removes, given the names it visits: the
  directories among them that are older than 3600 seconds and that the OS lets go.
\<close>

definition removed_by_sweep :: "real \<Rightarrow> string list \<Rightarrow> entry \<Rightarrow> bool" where
  "removed_by_sweep current_time names e =
     (e_name e \<in> set names \<and> e_kind e = Dir \<and> current_time - e_mtime e > 3600
      \<and> e_removable e)"

section \<open>The Deferred Cleanup Timer\<close>

text \<open>
  \<^verbatim>\<open>cleanup_later\<close>, the same in both variants: what the thread does once its
  \<^verbatim>\<open>time.sleep(60)\<close> is over. The \<^verbatim>\<open>except\<close> around the delete swallows whatever
  it raises, so the thread ends with no exception.
\<close>

definition cleanup_later :: "string \<Rightarrow> fs \<Rightarrow> exn option \<times> fs" where
  "cleanup_later temp_dir fs =
     (case rmtree temp_dir True fs of
        (Some x, fs') \<Rightarrow> (None, fs')
      | (None, fs') \<Rightarrow> (None, fs'))"

section \<open>The collaborator, requests and responses\<close>

text \<open>
  A key of a dictionary the collaborator returns: missing, present with \<^verbatim>\<open>None\<close>,
  or present with a value of the type yt-dlp documents for it.
\<close>

datatype 'a field = Absent | Null | Val 'a

text \<open>\<^verbatim>\<open>d.get(k)\<close> and \<^verbatim>\<open>d.get(k, default)\<close>; the result \<open>None\<close> is Python's \<^verbatim>\<open>None\<close>.\<close>

fun get :: "'a field \<Rightarrow> 'a option" where
  "get Absent = None"
| "get Null = None"
| "get (Val v) = Some v"

fun get_or :: "'a field \<Rightarrow> 'a \<Rightarrow> 'a option" where
  "get_or Absent d = Some d"
| "get_or Null d = None"
| "get_or (Val v) d = Some v"

text \<open>
  One entry of \<^verbatim>\<open>info['formats']\<close>. Only \<^verbatim>\<open>resolution\<close> is read with a default, so
  only there a missing key and \<^verbatim>\<open>None\<close> differ.
\<close>

record fmt =
  f_format_id :: "string option"
  f_ext :: "string option"
  f_resolution :: "string field"
  f_height :: "int option"
  f_filesize :: "int option"
  f_vcodec :: "string option"
  f_acodec :: "string option"
  f_fps :: "int option"

record info =
  i_title :: "string field"
  i_duration :: "int field"
  i_uploader :: "string field"
  i_view_count :: "int field"
  i_description :: "string field"
  i_thumbnail :: "string field"
  i_upload_date :: "string field"
  i_formats :: "fmt list field"
  i_id :: "string field"
  i_webpage_url :: "string field"

text \<open>The options dictionary handed to \<^verbatim>\<open>yt_dlp.YoutubeDL\<close>, as its items.\<close>

datatype optval = OBool bool | OStr string | OPost "(string \<times> string) list list"

type_synonym ydl_opts = "(string \<times> optval) list"

text \<open>
  The extraction collaborator, \<^verbatim>\<open>ydl.extract_info(url, download=...)\<close> under the given
  options: it returns the info dictionary or raises, and in download mode it leaves
  items in the directory its output template names.
\<close>

type_synonym collaborator = "ydl_opts \<Rightarrow> json \<Rightarrow> bool \<Rightarrow> dir_item list \<times> (exn + info)"

text \<open>
  What a handler can touch: the temporary directory, the collaborator (every call is
  recorded) and the cleanup threads it starts, each with its delay in seconds and the
  directory it will delete.
\<close>

record world =
  tmp :: fs
  calls :: "(ydl_opts \<times> json \<times> bool) list"
  timers :: "(nat \<times> string) list"

text \<open>
  The body \<^verbatim>\<open>{"error": ...}\<close> of an error response: a fixed message, a prefix followed
  by \<^verbatim>\<open>str(e)\<close> of the exception caught, or the size message of \<^verbatim>\<open>app.py\<close> (the file's
  size and the limit, which the source prints as megabytes).
\<close>

datatype error_body = Msg string | MsgExn string exn | TooLarge int int

record video_info =
  v_title :: string
  v_duration :: "int option"
  v_uploader :: string
  v_view_count :: "int option"
  v_description :: string
  v_thumbnail :: "string option"
  v_upload_date :: "string option"
  v_formats_available :: nat
  v_id :: "string option"
  v_webpage_url :: json

record backend_video_info =
  bv_title :: "string option"
  bv_duration :: "int option"
  bv_uploader :: "string option"
  bv_view_count :: "int option"
  bv_description :: string
  bv_thumbnail :: "string option"
  bv_upload_date :: "string option"
  bv_formats_available :: nat

text \<open>
  An entry of the formats answer of \<^verbatim>\<open>app.py\<close>. Its \<^verbatim>\<open>filesize_mb\<close>, a float
  rounded to one decimal from \<^verbatim>\<open>filesize\<close>, is left out.
\<close>

record fmt_out =
  o_format_id :: "string option"
  o_ext :: "string option"
  o_resolution :: "string option"
  o_height :: "int option"
  o_filesize :: "int option"
  o_vcodec :: "string option"
  o_acodec :: "string option"
  o_fps :: "int option"
  o_type :: string

record backend_fmt_out =
  bo_format_id :: "string option"
  bo_ext :: "string option"
  bo_resolution :: "string option"
  bo_filesize :: "int option"
  bo_vcodec :: "string option"
  bo_acodec :: "string option"

text \<open>
  A response: an error with its status, the JSON answers, or \<^verbatim>\<open>send_file\<close> with the
  directory and name of the file streamed, the download name and the MIME type.
\<close>

datatype response =
    ErrorResponse nat error_body
  | VideoInfoResponse video_info
  | BackendVideoInfoResponse backend_video_info
  | FormatsResponse "fmt_out list"
  | BackendFormatsResponse "backend_fmt_out list"
  | SendFile string string string string

text \<open>The directory a response streams a file from, if it streams one.\<close>

fun sent_from :: "response \<Rightarrow> string option" where
  "sent_from (SendFile d f n m) = Some d"
| "sent_from other = None"

text \<open>\<^verbatim>\<open>'youtube.com' in url or 'youtu.be' in url\<close>, the check of \<^verbatim>\<open>app.py\<close>.\<close>

definition valid_host :: "json \<Rightarrow> exn + bool" where
  "valid_host url =
     (case py_in ''youtube.com'' url of
        Inl x \<Rightarrow> Inl x
      | Inr True \<Rightarrow> Inr True
      | Inr False \<Rightarrow> py_in ''youtu.be'' url)"

text \<open>\<^verbatim>\<open>str.strip()\<close>: the white space of Python below code point 256.\<close>

definition is_space :: "char \<Rightarrow> bool" where
  "is_space c = (c \<in> set [CHR 0x20, CHR 0x09, CHR 0x0A, CHR 0x0B, CHR 0x0C, CHR 0x0D,
                           CHR 0x1C, CHR 0x1D, CHR 0x1E, CHR 0x1F, CHR 0x85, CHR 0xA0])"

definition strip :: "string \<Rightarrow> string" where
  "strip s = rev (dropWhile is_space (rev (dropWhile is_space s)))"

section \<open>Video metadata lookup\<close>

text \<open>\<^verbatim>\<open>info.get(k, d).strip()\<close>: \<^verbatim>\<open>None\<close> has no \<^verbatim>\<open>strip\<close>.\<close>

fun get_strip :: "string field \<Rightarrow> string \<Rightarrow> exn + string" where
  "get_strip Absent d = Inr (strip d)"
| "get_strip Null d = Inl AttributeError"
| "get_strip (Val s) d = Inr (strip s)"

text \<open>\<^verbatim>\<open>(info.get('description', '')[:200] + '...') if info.get('description') else ''\<close>\<close>

fun description_of :: "string field \<Rightarrow> string" where
  "description_of (Val s) = (if s \<noteq> [] then take 200 s @ ''...'' else [])"
| "description_of _ = []"

text \<open>\<^verbatim>\<open>len(info.get('formats', []))\<close>: \<^verbatim>\<open>None\<close> has no length.\<close>

fun formats_available_of :: "fmt list field \<Rightarrow> exn + nat" where
  "formats_available_of Absent = Inr 0"
| "formats_available_of Null = Inl TypeError"
| "formats_available_of (Val fs) = Inr (length fs)"

text \<open>\<^verbatim>\<open>info.get('webpage_url', url)\<close>: the default is the URL of the request.\<close>

fun webpage_url_of :: "string field \<Rightarrow> json \<Rightarrow> json" where
  "webpage_url_of Absent url = url"
| "webpage_url_of Null url = JNull"
| "webpage_url_of (Val s) url = JStr s"

text \<open>The dictionary \<^verbatim>\<open>video_info\<close> of \<^verbatim>\<open>app.py\<close>, its values computed in order.\<close>

definition app_video_info :: "json \<Rightarrow> info \<Rightarrow> exn + video_info" where
  "app_video_info url info =
     (case get_strip (i_title info) ''Unknown'' of
        Inl x \<Rightarrow> Inl x
      | Inr title \<Rightarrow>
          (case get_strip (i_uploader info) ''Unknown'' of
             Inl x \<Rightarrow> Inl x
           | Inr uploader \<Rightarrow>
               (case formats_available_of (i_formats info) of
                  Inl x \<Rightarrow> Inl x
                | Inr n \<Rightarrow>
                    Inr \<lparr>v_title = title,
                         v_duration = get_or (i_duration info) 0,
                         v_uploader = uploader,
                         v_view_count = get (i_view_count info),
                         v_description = description_of (i_description info),
                         v_thumbnail = get (i_thumbnail info),
                         v_upload_date = get (i_upload_date info),
                         v_formats_available = n,
                         v_id = get_or (i_id info) [],
                         v_webpage_url = webpage_url_of (i_webpage_url info) url\<rparr>)))"

definition app_info_opts :: ydl_opts where
  "app_info_opts = [(''quiet'', OBool True), (''no_warnings'', OBool True),
                    (''extract_flat'', OBool False), (''force_json'', OBool True)]"

text \<open>
  The \<^verbatim>\<open>try\<close> block of \<^verbatim>\<open>get_video_info\<close> in \<^verbatim>\<open>app.py\<close>: the response returned or
  the exception raised, and the world as the block leaves it.
\<close>

definition app_get_video_info_try :: "collaborator \<Rightarrow> json \<Rightarrow> world \<Rightarrow> (exn + response) \<times> world" where
  "app_get_video_info_try ydl data w =
     (if \<not> truthy data then (Inr (ErrorResponse 400 (Msg ''No JSON data provided'')), w)
      else case dict_get data ''url'' JNull of
        Inl x \<Rightarrow> (Inl x, w)
      | Inr url \<Rightarrow>
          if \<not> truthy url then (Inr (ErrorResponse 400 (Msg ''URL is required'')), w)
          else (case valid_host url of
                  Inl x \<Rightarrow> (Inl x, w)
                | Inr False \<Rightarrow>
                    (Inr (ErrorResponse 400 (Msg ''Please provide a valid YouTube URL'')), w)
                | Inr True \<Rightarrow>
                    (let w1 = w\<lparr>calls := calls w @ [(app_info_opts, url, False)]\<rparr> in
                     case snd (ydl app_info_opts url False) of
                       Inl x \<Rightarrow> (Inl x, w1)
                     | Inr info \<Rightarrow>
                         (case app_video_info url info of
                            Inl x \<Rightarrow> (Inl x, w1)
                          | Inr v \<Rightarrow> (Inr (VideoInfoResponse v), w1)))))"

text \<open>The two \<^verbatim>\<open>except\<close> clauses of \<^verbatim>\<open>get_video_info\<close> in \<^verbatim>\<open>app.py\<close>.\<close>

fun app_info_except :: "exn \<Rightarrow> response" where
  "app_info_except (DownloadError m) =
     ErrorResponse 400 (MsgExn ''Video extraction failed: '' (DownloadError m))"
| "app_info_except x = ErrorResponse 500 (MsgExn ''Server error: '' x)"

definition app_get_video_info :: "collaborator \<Rightarrow> json \<Rightarrow> world \<Rightarrow> response \<times> world" where
  "app_get_video_info ydl data w =
     (case app_get_video_info_try ydl data w of
        (Inr r, w') \<Rightarrow> (r, w')
      | (Inl x, w') \<Rightarrow> (app_info_except x, w'))"

text \<open>
  \<^verbatim>\<open>get_video_info\<close> of \<^verbatim>\<open>backend/app.py\<close>: no test of the body, no test of the
  host, eight fields, one \<^verbatim>\<open>except\<close>.
\<close>

definition backend_video_info :: "info \<Rightarrow> exn + backend_video_info" where
  "backend_video_info info =
     (case formats_available_of (i_formats info) of
        Inl x \<Rightarrow> Inl x
      | Inr n \<Rightarrow>
          Inr \<lparr>bv_title = get_or (i_title info) ''Unknown'',
               bv_duration = get_or (i_duration info) 0,
               bv_uploader = get_or (i_uploader info) ''Unknown'',
               bv_view_count = get (i_view_count info),
               bv_description = description_of (i_description info),
               bv_thumbnail = get (i_thumbnail info),
               bv_upload_date = get (i_upload_date info),
               bv_formats_available = n\<rparr>)"

definition backend_info_opts :: ydl_opts where
  "backend_info_opts = [(''quiet'', OBool True), (''no_warnings'', OBool True),
                        (''extract_flat'', OBool False)]"

definition backend_get_video_info_try :: "collaborator \<Rightarrow> json \<Rightarrow> world \<Rightarrow> (exn + response) \<times> world" where
  "backend_get_video_info_try ydl data w =
     (case dict_get data ''url'' JNull of
        Inl x \<Rightarrow> (Inl x, w)
      | Inr url \<Rightarrow>
          if \<not> truthy url then (Inr (ErrorResponse 400 (Msg ''URL is required'')), w)
          else (let w1 = w\<lparr>calls := calls w @ [(backend_info_opts, url, False)]\<rparr> in
                case snd (ydl backend_info_opts url False) of
                  Inl x \<Rightarrow> (Inl x, w1)
                | Inr info \<Rightarrow>
                    (case backend_video_info info of
                       Inl x \<Rightarrow> (Inl x, w1)
                     | Inr v \<Rightarrow> (Inr (BackendVideoInfoResponse v), w1))))"

text \<open>\<^verbatim>\<open>except Exception as e: return jsonify({"error": str(e)}), 500\<close>\<close>

definition backend_except :: "exn \<Rightarrow> response" where
  "backend_except x = ErrorResponse 500 (MsgExn [] x)"

definition backend_get_video_info :: "collaborator \<Rightarrow> json \<Rightarrow> world \<Rightarrow> response \<times> world" where
  "backend_get_video_info ydl data w =
     (case backend_get_video_info_try ydl data w of
        (Inr r, w') \<Rightarrow> (r, w')
      | (Inl x, w') \<Rightarrow> (backend_except x, w'))"

section \<open>Download\<close>

text \<open>
  \<^verbatim>\<open>MAX_FILE_SIZE = int(os.environ.get('MAX_FILE_SIZE', 100)) * 1024 * 1024\<close>, from the
  number the environment gives.
\<close>

definition MAX_FILE_SIZE :: "int \<Rightarrow> int" where
  "MAX_FILE_SIZE mb = mb * 1024 * 1024"

definition default_MAX_FILE_SIZE :: int where
  "default_MAX_FILE_SIZE = MAX_FILE_SIZE 100"

text \<open>
  \<^verbatim>\<open>quality_map.get(quality, default)\<close>: a string is looked up, a list or a dict cannot
  be hashed, any other value is no key of the table.
\<close>

fun quality_format :: "(string \<times> string) list \<Rightarrow> string \<Rightarrow> json \<Rightarrow> exn + string" where
  "quality_format table d (JStr q) = Inr (case map_of table q of None \<Rightarrow> d | Some f \<Rightarrow> f)"
| "quality_format table d (JArr xs) = Inl TypeError"
| "quality_format table d (JObj kvs) = Inl TypeError"
| "quality_format table d other = Inr d"

definition app_quality_map :: "(string \<times> string) list" where
  "app_quality_map =
     [(''best'', ''best[filesize<100M]/best[height<=1080]''),
      (''720p'', ''best[height<=720][filesize<80M]/best[height<=720]''),
      (''480p'', ''best[height<=480][filesize<50M]/best[height<=480]''),
      (''360p'', ''best[height<=360][filesize<30M]/best[height<=360]''),
      (''worst'', ''worst[filesize<20M]/worst'')]"

definition backend_quality_map :: "(string \<times> string) list" where
  "backend_quality_map =
     [(''best'', ''best[filesize<50M]/best''),
      (''720p'', ''best[height<=720][filesize<50M]/best[height<=720]''),
      (''480p'', ''best[height<=480][filesize<50M]/best[height<=480]''),
      (''360p'', ''best[height<=360][filesize<50M]/best[height<=360]''),
      (''worst'', ''worst'')]"

definition audio_opts :: "string \<Rightarrow> ydl_opts" where
  "audio_opts temp_dir =
     [(''format'', OStr ''bestaudio/best''),
      (''outtmpl'', OStr (temp_dir @ ''/%(title)s.%(ext)s'')),
      (''postprocessors'', OPost [[(''key'', ''FFmpegExtractAudio''),
                                   (''preferredcodec'', ''mp3''),
                                   (''preferredquality'', ''192'')]]),
      (''quiet'', OBool True), (''no_warnings'', OBool True)]"

definition video_opts :: "string \<Rightarrow> string \<Rightarrow> ydl_opts" where
  "video_opts format temp_dir =
     [(''format'', OStr format),
      (''outtmpl'', OStr (temp_dir @ ''/%(title)s.%(ext)s'')),
      (''quiet'', OBool True), (''no_warnings'', OBool True)]"

text \<open>
  The options of a download: \<^verbatim>\<open>download_type == 'audio'\<close> picks the audio branch,
  every other value the video branch with the format the quality table gives.
\<close>

definition app_download_opts :: "json \<Rightarrow> json \<Rightarrow> string \<Rightarrow> exn + ydl_opts" where
  "app_download_opts download_type quality temp_dir =
     (if download_type = JStr ''audio'' then Inr (audio_opts temp_dir)
      else case quality_format app_quality_map ''best[filesize<100M]/best'' quality of
             Inl x \<Rightarrow> Inl x
           | Inr f \<Rightarrow> Inr (video_opts f temp_dir))"

definition backend_download_opts :: "json \<Rightarrow> json \<Rightarrow> string \<Rightarrow> exn + ydl_opts" where
  "backend_download_opts download_type quality temp_dir =
     (if download_type = JStr ''audio'' then Inr (audio_opts temp_dir)
      else case quality_format backend_quality_map ''best[filesize<50M]/best'' quality of
             Inl x \<Rightarrow> Inl x
           | Inr f \<Rightarrow> Inr (video_opts f temp_dir))"

definition app_mimetype :: "string \<Rightarrow> string" where
  "app_mimetype filename =
     (if suffix ''.mp3'' filename then ''audio/mpeg''
      else if suffix ''.mp4'' filename then ''video/mp4''
      else if suffix ''.webm'' filename then ''video/webm''
      else ''application/octet-stream'')"

text \<open>
  \<^verbatim>\<open>file_sizes.sort(key=lambda x: x[1], reverse=True)\<close>: Python's sort is stable, also
  in reverse, so among files of one size the first listed stays first.
\<close>

definition sort_by_size_desc :: "dir_item list \<Rightarrow> dir_item list" where
  "sort_by_size_desc files = sort_key (\<lambda>f. - int (item_size f)) files"

text \<open>
  \<^verbatim>\<open>app.py\<close>, from the listing of the directory to the response: the regular files,
  the largest of them, the size limit, the MIME type, the cleanup thread,
  \<^verbatim>\<open>send_file\<close>. A directory's names are distinct, so an item stands for its name.
\<close>

definition app_deliver :: "int \<Rightarrow> string \<Rightarrow> world \<Rightarrow> (exn + response) \<times> world" where
  "app_deliver max_file_size temp_dir w =
     (case listdir temp_dir (tmp w) of
        Inl x \<Rightarrow> (Inl x, w)
      | Inr items \<Rightarrow>
          (let downloaded_files = filter item_is_file items in
           if downloaded_files = []
           then (Inr (ErrorResponse 500 (Msg
                   ''No file was downloaded. The video might be unavailable or too large.'')), w)
           else (let file_sizes = sort_by_size_desc downloaded_files;
                     filename = item_name (hd file_sizes);
                     file_size = int (item_size (hd file_sizes))
                 in if file_size > max_file_size
                    then (Inr (ErrorResponse 413 (TooLarge file_size max_file_size)), w)
                    else (Inr (SendFile temp_dir filename filename (app_mimetype filename)),
                          w\<lparr>timers := timers w @ [(60, temp_dir)]\<rparr>))))"

text \<open>
  The \<^verbatim>\<open>try\<close> block of \<^verbatim>\<open>download_video\<close> in \<^verbatim>\<open>app.py\<close>: the response or the
  exception, the value of \<^verbatim>\<open>temp_dir\<close> when the block is left (\<open>None\<close> before the
  directory exists), and the world.
\<close>

definition app_download_try ::
  "int \<Rightarrow> collaborator \<Rightarrow> string \<Rightarrow> real \<Rightarrow> json \<Rightarrow> world
     \<Rightarrow> (exn + response) \<times> string option \<times> world" where
  "app_download_try max_file_size ydl random_part now data w =
     (if \<not> truthy data
      then (Inr (ErrorResponse 400 (Msg ''No JSON data provided'')), None, w)
      else case (dict_get data ''url'' JNull, dict_get data ''type'' (JStr ''video''),
                 dict_get data ''quality'' (JStr ''best'')) of
        (Inr url, Inr download_type, Inr quality) \<Rightarrow>
          if \<not> truthy url then (Inr (ErrorResponse 400 (Msg ''URL is required'')), None, w)
          else (case valid_host url of
                  Inl x \<Rightarrow> (Inl x, None, w)
                | Inr False \<Rightarrow>
                    (Inr (ErrorResponse 400 (Msg ''Please provide a valid YouTube URL'')),
                     None, w)
                | Inr True \<Rightarrow>
                    (case mkdtemp ''yt_download_'' random_part now (tmp w) of
                       Inl x \<Rightarrow> (Inl x, None, w)
                     | Inr (temp_dir, fs1) \<Rightarrow>
                         (case app_download_opts download_type quality temp_dir of
                            Inl x \<Rightarrow> (Inl x, Some temp_dir, w\<lparr>tmp := fs1\<rparr>)
                          | Inr opts \<Rightarrow>
                              (let (written, outcome) = ydl opts url True;
                                   w2 = w\<lparr>tmp := write_items temp_dir written fs1,
                                          calls := calls w @ [(opts, url, True)]\<rparr>
                               in case outcome of
                                    Inl x \<Rightarrow> (Inl x, Some temp_dir, w2)
                                  | Inr info \<Rightarrow>
                                      (case app_deliver max_file_size temp_dir w2 of
                                         (r, w3) \<Rightarrow> (r, Some temp_dir, w3))))))
      | other \<Rightarrow> (Inl AttributeError, None, w))"

text \<open>
  The two \<^verbatim>\<open>except\<close> clauses of \<^verbatim>\<open>download_video\<close> in \<^verbatim>\<open>app.py\<close>, each after
  \<^verbatim>\<open>if temp_dir and os.path.exists(temp_dir): shutil.rmtree(temp_dir, ignore_errors=True)\<close>.
\<close>

definition app_remove_temp_dir :: "string option \<Rightarrow> world \<Rightarrow> world" where
  "app_remove_temp_dir temp_dir w =
     (case temp_dir of
        None \<Rightarrow> w
      | Some d \<Rightarrow>
          if d \<noteq> [] \<and> lookup d (tmp w) \<noteq> None
          then w\<lparr>tmp := snd (rmtree d True (tmp w))\<rparr> else w)"

fun app_download_except :: "exn \<Rightarrow> response" where
  "app_download_except (DownloadError m) =
     ErrorResponse 400 (MsgExn ''Download failed: '' (DownloadError m))"
| "app_download_except x = ErrorResponse 500 (MsgExn ''Server error: '' x)"

definition app_download_video ::
  "int \<Rightarrow> collaborator \<Rightarrow> string \<Rightarrow> real \<Rightarrow> json \<Rightarrow> world \<Rightarrow> response \<times> world" where
  "app_download_video max_file_size ydl random_part now data w =
     (case app_download_try max_file_size ydl random_part now data w of
        (Inr r, temp_dir, w') \<Rightarrow> (r, w')
      | (Inl x, temp_dir, w') \<Rightarrow> (app_download_except x, app_remove_temp_dir temp_dir w'))"

text \<open>
  \<^verbatim>\<open>backend/app.py\<close>: the inner \<^verbatim>\<open>try\<close> takes the first regular file listed, with a
  fixed limit of 100 MB and a fixed MIME type.
\<close>

definition backend_deliver :: "string \<Rightarrow> world \<Rightarrow> (exn + response) \<times> world" where
  "backend_deliver temp_dir w =
     (case listdir temp_dir (tmp w) of
        Inl x \<Rightarrow> (Inl x, w)
      | Inr items \<Rightarrow>
          (let downloaded_files = filter item_is_file items in
           if downloaded_files = []
           then (Inr (ErrorResponse 500 (Msg ''No file was downloaded'')), w)
           else (let filename = item_name (hd downloaded_files);
                     file_size = int (item_size (hd downloaded_files))
                 in if file_size > 100 * 1024 * 1024
                    then (Inr (ErrorResponse 413 (Msg ''File too large for web download'')), w)
                    else (Inr (SendFile temp_dir filename filename
                                 ''application/octet-stream''), w))))"

definition backend_download_inner ::
  "collaborator \<Rightarrow> json \<Rightarrow> json \<Rightarrow> json \<Rightarrow> string \<Rightarrow> world \<Rightarrow> (exn + response) \<times> world" where
  "backend_download_inner ydl url download_type quality temp_dir w =
     (case backend_download_opts download_type quality temp_dir of
        Inl x \<Rightarrow> (Inl x, w)
      | Inr opts \<Rightarrow>
          (let (written, outcome) = ydl opts url True;
               w2 = w\<lparr>tmp := write_items temp_dir written (tmp w),
                      calls := calls w @ [(opts, url, True)]\<rparr>
           in case outcome of
                Inl x \<Rightarrow> (Inl x, w2)
              | Inr info \<Rightarrow> backend_deliver temp_dir w2))"

text \<open>
  The outer \<^verbatim>\<open>try\<close> of \<^verbatim>\<open>backend/app.py\<close>. Its \<^verbatim>\<open>finally\<close> starts the cleanup
  thread however the inner block ends: with a response or with an exception.
\<close>

definition backend_download_try ::
  "collaborator \<Rightarrow> string \<Rightarrow> real \<Rightarrow> json \<Rightarrow> world \<Rightarrow> (exn + response) \<times> world" where
  "backend_download_try ydl random_part now data w =
     (case (dict_get data ''url'' JNull, dict_get data ''type'' (JStr ''video''),
            dict_get data ''quality'' (JStr ''best'')) of
        (Inr url, Inr download_type, Inr quality) \<Rightarrow>
          if \<not> truthy url then (Inr (ErrorResponse 400 (Msg ''URL is required'')), w)
          else (case mkdtemp ''yt_download_'' random_part now (tmp w) of
                  Inl x \<Rightarrow> (Inl x, w)
                | Inr (temp_dir, fs1) \<Rightarrow>
                    (case backend_download_inner ydl url download_type quality temp_dir
                            (w\<lparr>tmp := fs1\<rparr>) of
                       (r, w2) \<Rightarrow> (r, w2\<lparr>timers := timers w2 @ [(60, temp_dir)]\<rparr>)))
      | other \<Rightarrow> (Inl AttributeError, w))"

definition backend_download_video ::
  "collaborator \<Rightarrow> string \<Rightarrow> real \<Rightarrow> json \<Rightarrow> world \<Rightarrow> response \<times> world" where
  "backend_download_video ydl random_part now data w =
     (case backend_download_try ydl random_part now data w of
        (Inr r, w') \<Rightarrow> (r, w')
      | (Inl x, w') \<Rightarrow> (backend_except x, w'))"

section \<open>Format listing\<close>

text \<open>
  \<^verbatim>\<open>(fmt.get('height'), fmt.get('ext'), 'video' if fmt.get('vcodec') != 'none' else 'audio')\<close>
\<close>

definition format_type :: "fmt \<Rightarrow> string" where
  "format_type fmt = (if f_vcodec fmt \<noteq> Some ''none'' then ''video'' else ''audio'')"

definition format_key :: "fmt \<Rightarrow> int option \<times> string option \<times> string" where
  "format_key fmt = (f_height fmt, f_ext fmt, format_type fmt)"

text \<open>
  \<^verbatim>\<open>fmt.get('resolution', 'audio only' if fmt.get('vcodec') == 'none' else 'unknown')\<close>
\<close>

definition resolution_of :: "fmt \<Rightarrow> string option" where
  "resolution_of fmt =
     get_or (f_resolution fmt)
       (if f_vcodec fmt = Some ''none'' then ''audio only'' else ''unknown'')"

definition app_format_entry :: "fmt \<Rightarrow> fmt_out" where
  "app_format_entry fmt =
     \<lparr>o_format_id = f_format_id fmt, o_ext = f_ext fmt, o_resolution = resolution_of fmt,
      o_height = f_height fmt, o_filesize = f_filesize fmt, o_vcodec = f_vcodec fmt,
      o_acodec = f_acodec fmt, o_fps = f_fps fmt, o_type = format_type fmt\<rparr>"

text \<open>
  The \<^verbatim>\<open>for\<close> loop of \<^verbatim>\<open>get_formats\<close> in \<^verbatim>\<open>app.py\<close>, with its two variables
  \<^verbatim>\<open>seen_formats\<close> and \<^verbatim>\<open>formats\<close>.
\<close>

fun app_collect_formats ::
  "fmt list \<Rightarrow> (int option \<times> string option \<times> string) set \<Rightarrow> fmt_out list \<Rightarrow> fmt_out list" where
  "app_collect_formats [] seen_formats formats = formats"
| "app_collect_formats (fmt # rest) seen_formats formats =
     (if format_key fmt \<notin> seen_formats
      then app_collect_formats rest (insert (format_key fmt) seen_formats)
             (formats @ [app_format_entry fmt])
      else app_collect_formats rest seen_formats formats)"

text \<open>
  Deduplication by key as the specification words it, keeping the first occurrence: an
  entry stays, and every later entry with its key goes. The loop above is compared
  with it.
\<close>

fun first_by_key :: "fmt list \<Rightarrow> fmt list" where
  "first_by_key [] = []"
| "first_by_key (fmt # rest) =
     fmt # first_by_key (filter (\<lambda>g. format_key g \<noteq> format_key fmt) rest)"

text \<open>\<^verbatim>\<open>key=lambda x: (x['type'] == 'audio', -(x['height'] or 0))\<close>\<close>

definition height_or_0 :: "fmt_out \<Rightarrow> int" where
  "height_or_0 x = (case o_height x of None \<Rightarrow> 0 | Some h \<Rightarrow> h)"

definition app_sort_key :: "fmt_out \<Rightarrow> bool \<times> int" where
  "app_sort_key x = (o_type x = ''audio'', - height_or_0 x)"

text \<open>From the raw list to the list answered: collect, sort, \<^verbatim>\<open>formats[:20]\<close>.\<close>

definition app_format_list :: "fmt list \<Rightarrow> fmt_out list" where
  "app_format_list raw = take 20 (sort_key app_sort_key (app_collect_formats raw {} []))"

definition formats_opts :: ydl_opts where
  "formats_opts = [(''quiet'', OBool True), (''no_warnings'', OBool True),
                   (''listformats'', OBool True)]"

text \<open>
  \<^verbatim>\<open>info.get('formats', [])\<close> as the loop reads it: \<^verbatim>\<open>None\<close> cannot be iterated.
\<close>

fun formats_of :: "fmt list field \<Rightarrow> exn + fmt list" where
  "formats_of Absent = Inr []"
| "formats_of Null = Inl TypeError"
| "formats_of (Val raw) = Inr raw"

definition app_get_formats_try :: "collaborator \<Rightarrow> json \<Rightarrow> world \<Rightarrow> (exn + response) \<times> world" where
  "app_get_formats_try ydl data w =
     (if \<not> truthy data then (Inr (ErrorResponse 400 (Msg ''No JSON data provided'')), w)
      else case dict_get data ''url'' JNull of
        Inl x \<Rightarrow> (Inl x, w)
      | Inr url \<Rightarrow>
          if \<not> truthy url then (Inr (ErrorResponse 400 (Msg ''URL is required'')), w)
          else (let w1 = w\<lparr>calls := calls w @ [(formats_opts, url, False)]\<rparr> in
                case snd (ydl formats_opts url False) of
                  Inl x \<Rightarrow> (Inl x, w1)
                | Inr info \<Rightarrow>
                    (case formats_of (i_formats info) of
                       Inl x \<Rightarrow> (Inl x, w1)
                     | Inr raw \<Rightarrow> (Inr (FormatsResponse (app_format_list raw)), w1))))"

definition app_get_formats :: "collaborator \<Rightarrow> json \<Rightarrow> world \<Rightarrow> response \<times> world" where
  "app_get_formats ydl data w =
     (case app_get_formats_try ydl data w of
        (Inr r, w') \<Rightarrow> (r, w')
      | (Inl x, w') \<Rightarrow> (ErrorResponse 500 (MsgExn [] x), w'))"

text \<open>
  \<^verbatim>\<open>get_formats\<close> of \<^verbatim>\<open>backend/app.py\<close>: the formats that have a video or an audio
  codec, in the collaborator's order.
\<close>

definition backend_format_entry :: "fmt \<Rightarrow> backend_fmt_out" where
  "backend_format_entry fmt =
     \<lparr>bo_format_id = f_format_id fmt, bo_ext = f_ext fmt, bo_resolution = resolution_of fmt,
      bo_filesize = f_filesize fmt, bo_vcodec = f_vcodec fmt, bo_acodec = f_acodec fmt\<rparr>"

definition backend_format_list :: "fmt list \<Rightarrow> backend_fmt_out list" where
  "backend_format_list raw =
     map backend_format_entry
       (filter (\<lambda>fmt. f_vcodec fmt \<noteq> Some ''none'' \<or> f_acodec fmt \<noteq> Some ''none'') raw)"

definition backend_get_formats_try :: "collaborator \<Rightarrow> json \<Rightarrow> world \<Rightarrow> (exn + response) \<times> world" where
  "backend_get_formats_try ydl data w =
     (case dict_get data ''url'' JNull of
        Inl x \<Rightarrow> (Inl x, w)
      | Inr url \<Rightarrow>
          if \<not> truthy url then (Inr (ErrorResponse 400 (Msg ''URL is required'')), w)
          else (let w1 = w\<lparr>calls := calls w @ [(formats_opts, url, False)]\<rparr> in
                case snd (ydl formats_opts url False) of
                  Inl x \<Rightarrow> (Inl x, w1)
                | Inr info \<Rightarrow>
                    (case formats_of (i_formats info) of
                       Inl x \<Rightarrow> (Inl x, w1)
                     | Inr raw \<Rightarrow> (Inr (BackendFormatsResponse (backend_format_list raw)), w1))))"

definition backend_get_formats :: "collaborator \<Rightarrow> json \<Rightarrow> world \<Rightarrow> response \<times> world" where
  "backend_get_formats ydl data w =
     (case backend_get_formats_try ydl data w of
        (Inr r, w') \<Rightarrow> (r, w')
      | (Inl x, w') \<Rightarrow> (backend_except x, w'))"

section \<open>Example inputs\<close>

text \<open>A download directory last modified at second 1000, owned by the process.\<close>

definition old_dir :: entry where
  "old_dir = \<lparr>e_name = ''yt_download_ab12'', e_kind = Dir, e_mtime = 1000,
              e_removable = True, e_items = []\<rparr>"

text \<open>
  More entries of a temporary directory: a download directory modified at second
  4000, one that belongs to another user, a regular file that carries the download
  prefix, and another user's old temporary file.
\<close>

definition young_dir :: entry where
  "young_dir = \<lparr>e_name = ''yt_download_cd34'', e_kind = Dir, e_mtime = 4000,
                e_removable = True, e_items = []\<rparr>"

definition foreign_dir :: entry where
  "foreign_dir = \<lparr>e_name = ''yt_download_ef56'', e_kind = Dir, e_mtime = 1000,
                  e_removable = False, e_items = []\<rparr>"

definition stale_file :: entry where
  "stale_file = \<lparr>e_name = ''yt_download_notes'', e_kind = File, e_mtime = 1000,
                 e_removable = True, e_items = []\<rparr>"

definition foreign_tmp_file :: entry where
  "foreign_tmp_file = \<lparr>e_name = ''tmpx1'', e_kind = File, e_mtime = 0,
                       e_removable = False, e_items = []\<rparr>"

definition sweep_fs :: fs where
  "sweep_fs = [old_dir, young_dir, foreign_dir, stale_file, foreign_tmp_file]"

text \<open>
  A request for a YouTube video, a world with an empty temporary directory, and a
  collaborator that fails on every call with its own \<^verbatim>\<open>DownloadError\<close>.
\<close>

definition empty_world :: world where
  "empty_world = \<lparr>tmp = [], calls = [], timers = []\<rparr>"

definition youtube_request :: json where
  "youtube_request = JObj [(''url'', JStr ''https://youtu.be/abc'')]"

definition failing_ydl :: collaborator where
  "failing_ydl = (\<lambda>opts url download. ([], Inl (DownloadError ''Video unavailable'')))"

text \<open>
  An info dictionary with no key at all, and collaborators that succeed: one leaves a
  thumbnail and then the video in the directory, one leaves a single file of 150 MB.
\<close>

definition empty_info :: info where
  "empty_info = \<lparr>i_title = Absent, i_duration = Absent, i_uploader = Absent,
                 i_view_count = Absent, i_description = Absent, i_thumbnail = Absent,
                 i_upload_date = Absent, i_formats = Absent, i_id = Absent,
                 i_webpage_url = Absent\<rparr>"

definition thumbnail_item :: dir_item where
  "thumbnail_item = \<lparr>item_name = ''clip.jpg'', item_size = 20000, item_is_file = True\<rparr>"

definition video_item :: dir_item where
  "video_item = \<lparr>item_name = ''clip.mp4'', item_size = 5000000, item_is_file = True\<rparr>"

definition big_item :: dir_item where
  "big_item = \<lparr>item_name = ''film.mp4'', item_size = 157286400, item_is_file = True\<rparr>"

definition two_files_ydl :: collaborator where
  "two_files_ydl = (\<lambda>opts url download. ([thumbnail_item, video_item], Inr empty_info))"

definition big_file_ydl :: collaborator where
  "big_file_ydl = (\<lambda>opts url download. ([big_item], Inr empty_info))"

text \<open>A request whose URL names neither YouTube host.\<close>

definition other_site_request :: json where
  "other_site_request = JObj [(''url'', JStr ''https://example.com/watch?v=abc'')]"

text \<open>A download request with a type and a quality the documentation does not list.\<close>

definition odd_request :: json where
  "odd_request = JObj [(''url'', JStr ''https://youtu.be/abc''), (''type'', JStr ''movie''),
                       (''quality'', JStr ''4k'')]"

text \<open>
  Collaborators for the metadata lookup: one returns the dictionary with no key, one a
  dictionary that has a title with blanks around it and a description.
\<close>

definition bare_ydl :: collaborator where
  "bare_ydl = (\<lambda>opts url download. ([], Inr empty_info))"

definition cats_info :: info where
  "cats_info = empty_info\<lparr>i_title := Val ''  Cats  '', i_description := Val ''Two cats.''\<rparr>"

definition cats_ydl :: collaborator where
  "cats_ydl = (\<lambda>opts url download. ([], Inr cats_info))"

text \<open>
  A raw format list: an audio-only format first, then a 720-line video, a second
  720-line video of the same extension, and a 1080-line video.
\<close>

definition audio_m4a :: fmt where
  "audio_m4a = \<lparr>f_format_id = Some ''140'', f_ext = Some ''m4a'', f_resolution = Absent,
                f_height = None, f_filesize = None, f_vcodec = Some ''none'',
                f_acodec = Some ''mp4a'', f_fps = None\<rparr>"

definition video_720 :: fmt where
  "video_720 = \<lparr>f_format_id = Some ''22'', f_ext = Some ''mp4'', f_resolution = Val ''1280x720'',
                f_height = Some 720, f_filesize = None, f_vcodec = Some ''avc1'',
                f_acodec = Some ''mp4a'', f_fps = Some 30\<rparr>"

definition video_720_again :: fmt where
  "video_720_again = video_720\<lparr>f_format_id := Some ''136'', f_acodec := Some ''none''\<rparr>"

definition video_1080 :: fmt where
  "video_1080 = \<lparr>f_format_id = Some ''137'', f_ext = Some ''mp4'',
                 f_resolution = Val ''1920x1080'', f_height = Some 1080, f_filesize = None,
                 f_vcodec = Some ''avc1'', f_acodec = Some ''none'', f_fps = Some 30\<rparr>"

definition raw_formats :: "fmt list" where
  "raw_formats = [audio_m4a, video_720, video_720_again, video_1080]"

definition formats_ydl :: collaborator where
  "formats_ydl = (\<lambda>opts url download. ([], Inr (empty_info\<lparr>i_formats := Val raw_formats\<rparr>)))"

section \<open>Deleting a directory twice\<close>

lemma lookup_remove_path: "lookup d (remove_path d fs) = None"
  by (simp add: lookup_def remove_path_def find_None_iff)

lemma rmtree_ignore_no_exn: "fst (rmtree d True fs) = None"
  by (simp add: rmtree_def split: option.splits)

lemma rmtree_missing:
  "lookup d fs = None \<Longrightarrow> rmtree d ig fs = (if ig then None else Some FileNotFoundError, fs)"
  by (simp add: rmtree_def)

lemma rmtree_twice: "rmtree d True (snd (rmtree d True fs)) = (None, snd (rmtree d True fs))"
  by (auto simp add: rmtree_def lookup_remove_path split: option.splits)

lemma cleanup_later_eq: "cleanup_later d fs = (None, snd (rmtree d True fs))"
  by (simp add: cleanup_later_def split: prod.splits option.splits)

lemma app_sweep_dirs_no_exn: "fst (app_sweep_dirs t ps fs) = None"
proof (induction ps arbitrary: fs)
  case Nil
  show ?case by simp
next
  case (Cons p ps)
  obtain fs' where r: "rmtree p True fs = (None, fs')"
    using rmtree_ignore_no_exn [of p fs] by (cases "rmtree p True fs") simp
  show ?case
    by (cases "lookup p fs") (simp_all add: Cons.IH r)
qed

text \<open>
  C9: the recursive delete both cleanup mechanisms use,
  \<^verbatim>\<open>shutil.rmtree(path, ignore_errors=True)\<close>, never raises; on a directory that has
  already been removed it changes nothing, so a second delete after a first is a
  no-op. The same holds for the timer's \<open>cleanup_later\<close>, which ends without an
  exception whatever it finds, and for the sweeper's loop over the directories, which
  raises nothing and passes over a listed name that is gone by the time it is reached.
\<close>

theorem double_delete_is_harmless:
  "fst (rmtree d True fs) = None
   \<and> (lookup d fs = None \<longrightarrow> rmtree d True fs = (None, fs))
   \<and> rmtree d True (snd (rmtree d True fs)) = (None, snd (rmtree d True fs))
   \<and> fst (cleanup_later d fs) = None
   \<and> (lookup d fs = None \<longrightarrow> cleanup_later d fs = (None, fs))
   \<and> cleanup_later d (snd (cleanup_later d fs)) = (None, snd (cleanup_later d fs))
   \<and> fst (app_sweep_dirs t ps fs) = None
   \<and> (lookup d fs = None \<longrightarrow> app_sweep_dirs t (d # ps) fs = app_sweep_dirs t ps fs)"
  using rmtree_twice [of d fs]
  by (simp add: rmtree_ignore_no_exn rmtree_missing cleanup_later_eq app_sweep_dirs_no_exn)

text \<open>
  The timer removes \<open>old_dir\<close>; after that the directory is gone, and a second
  \<^verbatim>\<open>rmtree\<close>, a second timer and a sweep that still lists the name all leave the
  empty listing as it is and raise nothing.
\<close>

theorem double_delete_is_harmless_witness:
  "lookup ''yt_download_ab12'' (snd (cleanup_later ''yt_download_ab12'' [old_dir])) = None
   \<and> rmtree ''yt_download_ab12'' True (snd (cleanup_later ''yt_download_ab12'' [old_dir]))
       = (None, [])
   \<and> cleanup_later ''yt_download_ab12'' (snd (cleanup_later ''yt_download_ab12'' [old_dir]))
       = (None, [])
   \<and> app_sweep_dirs 5000 [''yt_download_ab12'']
         (snd (cleanup_later ''yt_download_ab12'' [old_dir])) = (None, [])"
proof -
  have gone: "snd (cleanup_later ''yt_download_ab12'' [old_dir]) = []"
    by (simp add: cleanup_later_def rmtree_def lookup_def remove_path_def old_dir_def)
  have none: "lookup ''yt_download_ab12'' [] = None"
    by (simp add: lookup_def)
  from double_delete_is_harmless [of "''yt_download_ab12''" "[]" 5000 "[]"] none gone
  show ?thesis by simp
qed

section \<open>The sweep over the download directories\<close>

lemma lookup_None_iff: "lookup p fs = None \<longleftrightarrow> p \<notin> set (map e_name fs)"
  by (auto simp add: lookup_def find_None_iff)

lemma lookup_Some_iff:
  "distinct (map e_name fs) \<Longrightarrow> lookup p fs = Some e \<longleftrightarrow> e \<in> set fs \<and> e_name e = p"
  unfolding lookup_def by (induction fs) auto

lemma distinct_remove_path:
  "distinct (map e_name fs) \<Longrightarrow> distinct (map e_name (remove_path p fs))"
  by (simp add: remove_path_def distinct_map_filter)

text \<open>The first loop, in closed form: it filters the listing.\<close>

lemma app_sweep_dirs_filter:
  "distinct (map e_name fs) \<Longrightarrow>
     snd (app_sweep_dirs t ps fs) = filter (\<lambda>e. \<not> removed_by_sweep t ps e) fs"
proof (induction ps arbitrary: fs)
  case Nil
  show ?case by (simp add: removed_by_sweep_def)
next
  case (Cons p ps)
  show ?case
  proof (cases "lookup p fs")
    case None
    then have "\<And>e. e \<in> set fs \<Longrightarrow> e_name e \<noteq> p"
      by (auto simp add: lookup_None_iff)
    then have "filter (\<lambda>e. \<not> removed_by_sweep t (p # ps) e) fs
             = filter (\<lambda>e. \<not> removed_by_sweep t ps e) fs"
      by (intro filter_cong) (auto simp add: removed_by_sweep_def)
    with None Cons show ?thesis by simp
  next
    case (Some e)
    have only: "\<And>e'. e' \<in> set fs \<Longrightarrow> e_name e' = p \<Longrightarrow> e' = e"
      using Some Cons.prems by (auto simp add: lookup_Some_iff distinct_map dest: inj_onD)
    have name: "e_name e = p"
      using Some Cons.prems by (simp add: lookup_Some_iff)
    show ?thesis
    proof (cases "removed_by_sweep t [p] e")
      case True
      then have rm: "rmtree p True fs = (None, remove_path p fs)"
        using Some by (simp add: rmtree_def removed_by_sweep_def)
      have "filter (\<lambda>e. \<not> removed_by_sweep t ps e) (remove_path p fs)
          = filter (\<lambda>e. \<not> removed_by_sweep t (p # ps) e) fs"
        unfolding remove_path_def filter_filter
        using only True by (intro filter_cong) (auto simp add: removed_by_sweep_def)
      with Cons.IH [OF distinct_remove_path [OF Cons.prems]] Some True rm
      show ?thesis by (simp add: removed_by_sweep_def)
    next
      case False
      have same: "filter (\<lambda>e. \<not> removed_by_sweep t (p # ps) e) fs
                = filter (\<lambda>e. \<not> removed_by_sweep t ps e) fs"
        using only False by (intro filter_cong) (auto simp add: removed_by_sweep_def)
      have "snd (app_sweep_dirs t (p # ps) fs) = snd (app_sweep_dirs t ps fs)"
        using Some False name
        by (auto simp add: removed_by_sweep_def rmtree_def)
      with Cons.IH [OF Cons.prems] same show ?thesis by simp
    qed
  qed
qed

text \<open>The second loop only ever removes a name it visits.\<close>

lemma unlink_keeps:
  "e \<in> set fs \<Longrightarrow> e_name e \<noteq> p \<Longrightarrow> e \<in> set (snd (unlink p ok fs))"
  by (auto simp add: unlink_def remove_path_def split: option.splits)

lemma unlink_subset: "set (snd (unlink p ok fs)) \<subseteq> set fs"
  by (auto simp add: unlink_def remove_path_def split: option.splits)

lemma app_sweep_files_keeps:
  "e \<in> set fs \<Longrightarrow> e_name e \<notin> set ps \<Longrightarrow> e \<in> set (snd (app_sweep_files t ps fs))"
proof (induction ps arbitrary: fs)
  case Nil
  then show ?case by simp
next
  case (Cons p ps)
  from Cons.prems have ne: "e_name e \<noteq> p" and rest: "e_name e \<notin> set ps" by auto
  obtain x fs' where u: "unlink p True fs = (x, fs')" by (cases "unlink p True fs")
  with unlink_keeps [OF Cons.prems(1) ne, of True] have e': "e \<in> set fs'" by simp
  show ?case
    using Cons.IH [OF Cons.prems(1) rest] Cons.IH [OF e' rest] u e'
    by (cases "lookup p fs"; cases x) auto
qed

lemma app_sweep_files_subset: "set (snd (app_sweep_files t ps fs)) \<subseteq> set fs"
proof (induction ps arbitrary: fs)
  case Nil
  show ?case by simp
next
  case (Cons p ps)
  obtain x fs' where u: "unlink p True fs = (x, fs')" by (cases "unlink p True fs")
  with unlink_subset [of p True fs] have sub: "set fs' \<subseteq> set fs" by simp
  with Cons.IH [of fs'] have "set (snd (app_sweep_files t ps fs')) \<subseteq> set fs" by blast
  with Cons.IH [of fs] u sub show ?case
    by (cases "lookup p fs"; cases x) auto
qed

lemma download_name_not_tmp: "prefix ''yt_download_'' n \<Longrightarrow> \<not> prefix ''tmp'' n"
  by (auto simp add: prefix_def)

lemma glob_set: "set (glob pre fs) = {n \<in> set (map e_name fs). prefix pre n}"
  by (auto simp add: glob_def)

lemma app_sweep_eq:
  "app_sweep t fs =
     app_sweep_files t (glob ''tmp'' (snd (app_sweep_dirs t (glob ''yt_download_'' fs) fs)))
       (snd (app_sweep_dirs t (glob ''yt_download_'' fs) fs))"
  using app_sweep_dirs_no_exn [of t "glob ''yt_download_'' fs" fs]
  by (cases "app_sweep_dirs t (glob ''yt_download_'' fs) fs") (simp add: app_sweep_def)

lemma app_sweep_subset:
  "distinct (map e_name fs) \<Longrightarrow>
     set (snd (app_sweep t fs))
       \<subseteq> {e \<in> set fs. \<not> removed_by_sweep t (glob ''yt_download_'' fs) e}"
  using app_sweep_files_subset
    [of t "glob ''tmp'' (snd (app_sweep_dirs t (glob ''yt_download_'' fs) fs))"
        "snd (app_sweep_dirs t (glob ''yt_download_'' fs) fs)"]
  by (auto simp add: app_sweep_eq app_sweep_dirs_filter)

lemma app_sweep_keeps:
  assumes "distinct (map e_name fs)" and "e \<in> set fs" and "prefix ''yt_download_'' (e_name e)"
    and "\<not> removed_by_sweep t (glob ''yt_download_'' fs) e"
  shows "e \<in> set (snd (app_sweep t fs))"
proof -
  let ?fs1 = "snd (app_sweep_dirs t (glob ''yt_download_'' fs) fs)"
  have "e \<in> set ?fs1"
    using assms by (simp add: app_sweep_dirs_filter)
  moreover have "e_name e \<notin> set (glob ''tmp'' ?fs1)"
    using assms(3) by (simp add: glob_set download_name_not_tmp)
  ultimately show ?thesis
    by (simp add: app_sweep_eq app_sweep_files_keeps)
qed

lemma app_sweep_removes:
  assumes "distinct (map e_name fs)" and "e \<in> set fs" and "prefix ''yt_download_'' (e_name e)"
    and "e_kind e = Dir" and "t - e_mtime e > 3600" and "e_removable e"
  shows "lookup (e_name e) (snd (app_sweep t fs)) = None"
proof -
  have gone: "removed_by_sweep t (glob ''yt_download_'' fs) e"
    using assms by (simp add: removed_by_sweep_def glob_set)
  have "e_name e \<notin> e_name ` set (snd (app_sweep t fs))"
  proof
    assume "e_name e \<in> e_name ` set (snd (app_sweep t fs))"
    then obtain e' where in': "e' \<in> set (snd (app_sweep t fs))" and eq: "e_name e' = e_name e"
      by auto
    from in' app_sweep_subset [OF assms(1), of t]
    have e': "e' \<in> set fs" and kept: "\<not> removed_by_sweep t (glob ''yt_download_'' fs) e'"
      by auto
    from assms(1) assms(2) e' eq have "e' = e"
      by (auto simp add: distinct_map dest: inj_onD)
    with kept gone show False by simp
  qed
  then show ?thesis
    by (simp add: lookup_None_iff)
qed

lemma app_cleanup_old_files_append:
  "app_cleanup_old_files (ts @ us) fs = app_cleanup_old_files us (app_cleanup_old_files ts fs)"
  by (induction ts arbitrary: fs) simp_all

text \<open>
  C6, amended: on each pass of the sweeper of \<^verbatim>\<open>app.py\<close>, for every entry of the OS
  temporary directory whose name starts with \<^verbatim>\<open>yt_download_\<close>: if it is a directory
  and the current time minus its last-modified time exceeds 3600 seconds, it is deleted
  recursively, and no entry of its name is left unless the OS refuses the deletion;
  if its age is at most 3600 seconds it survives the pass; if it is not a directory it
  survives whatever its age; an entry the OS refuses to remove survives, and the
  directory loop raises nothing about it. A pass follows the passes before it whether
  or not they ended in an exception.
\<close>

theorem app_sweep_download_directories:
  assumes "distinct (map e_name fs)" and "e \<in> set fs"
    and "prefix ''yt_download_'' (e_name e)"
  shows "(e_kind e = Dir \<and> current_time - e_mtime e > 3600 \<and> e_removable e
            \<longrightarrow> lookup (e_name e) (snd (app_sweep current_time fs)) = None)
       \<and> (current_time - e_mtime e \<le> 3600 \<longrightarrow> e \<in> set (snd (app_sweep current_time fs)))
       \<and> (e_kind e \<noteq> Dir \<longrightarrow> e \<in> set (snd (app_sweep current_time fs)))
       \<and> (\<not> e_removable e \<longrightarrow> e \<in> set (snd (app_sweep current_time fs)))
       \<and> fst (app_sweep_dirs current_time (glob ''yt_download_'' fs) fs) = None
       \<and> app_cleanup_old_files (earlier @ [current_time]) fs0
           = snd (app_sweep current_time (app_cleanup_old_files earlier fs0))"
proof -
  have "\<not> removed_by_sweep current_time (glob ''yt_download_'' fs) e
          \<Longrightarrow> e \<in> set (snd (app_sweep current_time fs))"
    using assms by (rule app_sweep_keeps)
  then have keep: "current_time - e_mtime e \<le> 3600 \<or> e_kind e \<noteq> Dir \<or> \<not> e_removable e
          \<Longrightarrow> e \<in> set (snd (app_sweep current_time fs))"
    by (auto simp add: removed_by_sweep_def)
  show ?thesis
    using keep app_sweep_removes [OF assms, of current_time]
    by (auto simp add: app_sweep_dirs_no_exn app_cleanup_old_files_append)
qed

text \<open>
  Two passes over \<open>sweep_fs\<close>, at seconds 5000 and 8000. Both end in the
  \<^verbatim>\<open>PermissionError\<close> of another user's temporary file, and both do their work on the
  download directories before that.
\<close>

lemma sweep_fs_pass1:
  "app_sweep 5000 sweep_fs
     = (Some PermissionError, [young_dir, foreign_dir, stale_file, foreign_tmp_file])"
  by (simp add: app_sweep_def glob_def sweep_fs_def old_dir_def young_dir_def foreign_dir_def
      stale_file_def foreign_tmp_file_def lookup_def rmtree_def unlink_def remove_path_def)

lemma sweep_fs_pass2:
  "app_sweep 8000 [young_dir, foreign_dir, stale_file, foreign_tmp_file]
     = (Some PermissionError, [foreign_dir, stale_file, foreign_tmp_file])"
  by (simp add: app_sweep_def glob_def sweep_fs_def old_dir_def young_dir_def foreign_dir_def
      stale_file_def foreign_tmp_file_def lookup_def rmtree_def unlink_def remove_path_def)

theorem app_sweep_download_directories_witness:
  "lookup ''yt_download_ab12'' (snd (app_sweep 5000 sweep_fs)) = None
   \<and> young_dir \<in> set (snd (app_sweep 5000 sweep_fs))
   \<and> foreign_dir \<in> set (snd (app_sweep 5000 sweep_fs))
   \<and> fst (app_sweep 5000 sweep_fs) = Some PermissionError
   \<and> app_cleanup_old_files [5000, 8000] sweep_fs = [foreign_dir, stale_file, foreign_tmp_file]"
proof -
  have d: "distinct (map e_name sweep_fs)"
    by (simp add: sweep_fs_def old_dir_def young_dir_def foreign_dir_def stale_file_def
        foreign_tmp_file_def)
  have o: "old_dir \<in> set sweep_fs \<and> prefix ''yt_download_'' (e_name old_dir)
           \<and> e_kind old_dir = Dir \<and> 5000 - e_mtime old_dir > 3600 \<and> e_removable old_dir
           \<and> e_name old_dir = ''yt_download_ab12''"
    by (simp add: sweep_fs_def old_dir_def)
  have y: "young_dir \<in> set sweep_fs \<and> prefix ''yt_download_'' (e_name young_dir)
           \<and> 5000 - e_mtime young_dir \<le> 3600"
    by (simp add: sweep_fs_def young_dir_def)
  have f: "foreign_dir \<in> set sweep_fs \<and> prefix ''yt_download_'' (e_name foreign_dir)
           \<and> \<not> e_removable foreign_dir"
    by (simp add: sweep_fs_def foreign_dir_def)
  from app_sweep_download_directories [OF d, of old_dir 5000 "[5000]" sweep_fs] o
  have 1: "lookup ''yt_download_ab12'' (snd (app_sweep 5000 sweep_fs)) = None
      \<and> app_cleanup_old_files ([5000] @ [5000]) sweep_fs
          = snd (app_sweep 5000 (app_cleanup_old_files [5000] sweep_fs))"
    by simp
  from app_sweep_download_directories [OF d, of young_dir 5000 "[]" "[]"] y
  have 2: "young_dir \<in> set (snd (app_sweep 5000 sweep_fs))"
    by simp
  from app_sweep_download_directories [OF d, of foreign_dir 5000 "[]" "[]"] f
  have 3: "foreign_dir \<in> set (snd (app_sweep 5000 sweep_fs))"
    by simp
  from 1 2 3 show ?thesis
    by (simp add: sweep_fs_pass1 sweep_fs_pass2)
qed

text \<open>
  The claim as written speaks of every entry with the prefix. A regular file with the
  prefix, 4000 seconds old, is still there after the pass: the loop asks
  \<^verbatim>\<open>is_dir()\<close> first.
\<close>

theorem sweep_keeps_old_file_counterexample:
  "stale_file \<in> set [stale_file]
   \<and> prefix ''yt_download_'' (e_name stale_file)
   \<and> 5000 - e_mtime stale_file > 3600
   \<and> app_sweep 5000 [stale_file] = (None, [stale_file])"
  by (simp add: app_sweep_def glob_def stale_file_def lookup_def)

text \<open>
  The pass of \<^verbatim>\<open>backend/app.py\<close> calls \<^verbatim>\<open>unlink\<close> on what it lists. On a directory
  that raises, so an old download directory ends the pass and stays.
\<close>

lemma backend_sweep_directory:
  "lookup p fs = Some e \<Longrightarrow> e_kind e = Dir \<Longrightarrow> t - e_mtime e > 3600 \<Longrightarrow>
     backend_sweep t (p # ps) fs = (Some IsADirectoryError, fs)"
  by (simp add: unlink_def)

section \<open>A download from the request to the collaborator\<close>

lemmas eval_defs =
  empty_world_def youtube_request_def failing_ydl_def
  valid_host_def sublist_code(3) mkdtemp_def new_dir_def
  app_download_opts_def backend_download_opts_def app_quality_map_def backend_quality_map_def
  video_opts_def audio_opts_def Let_def

lemma truthy_data: "dict_get data k JNull = Inr v \<Longrightarrow> truthy v \<Longrightarrow> truthy data"
  by (cases data) (auto split: option.splits)

lemma mkdtemp_Inr:
  assumes "mkdtemp pre r now fs = Inr (d, fs1)"
  shows "d = pre @ r" and "d \<notin> set (map e_name fs)" and "fs1 = fs @ [new_dir d now []]"
  using assms by (auto simp add: mkdtemp_def Let_def split: if_splits)

lemma write_items_new:
  "d \<notin> set (map e_name fs) \<Longrightarrow>
     write_items d items (fs @ [new_dir d now []]) = fs @ [new_dir d now items]"
  by (auto simp add: write_items_def new_dir_def intro!: map_idI)

lemma lookup_new:
  "d \<notin> set (map e_name fs) \<Longrightarrow>
     lookup d (fs @ [new_dir d now items]) = Some (new_dir d now items)"
  unfolding lookup_def by (induction fs) (auto simp add: new_dir_def)

lemma remove_new:
  "d \<notin> set (map e_name fs) \<Longrightarrow> remove_path d (fs @ [new_dir d now items]) = fs"
  by (auto simp add: remove_path_def new_dir_def filter_id_conv)

lemma rmtree_new:
  "d \<notin> set (map e_name fs) \<Longrightarrow> rmtree d ig (fs @ [new_dir d now items]) = (None, fs)"
  by (simp add: rmtree_def lookup_new remove_new) (simp add: new_dir_def)

lemma listdir_new:
  "d \<notin> set (map e_name fs) \<Longrightarrow> listdir d (fs @ [new_dir d now items]) = Inr items"
  by (simp add: listdir_def lookup_new) (simp add: new_dir_def)

text \<open>
  A request that passes the checks of \<^verbatim>\<open>app.py\<close> and gets its directory reaches the
  collaborator, and the block goes on with what the collaborator did.
\<close>

lemma app_download_try_accepted:
  assumes "dict_get data ''url'' JNull = Inr url" and "truthy url"
    and "valid_host url = Inr True"
    and "dict_get data ''type'' (JStr ''video'') = Inr download_type"
    and "dict_get data ''quality'' (JStr ''best'') = Inr quality"
    and "mkdtemp ''yt_download_'' random_part now (tmp w) = Inr (temp_dir, fs1)"
    and "app_download_opts download_type quality temp_dir = Inr opts"
    and "ydl opts url True = (written, outcome)"
  shows "app_download_try max_file_size ydl random_part now data w =
     (case outcome of
        Inl x \<Rightarrow> (Inl x, Some temp_dir,
                    w\<lparr>tmp := tmp w @ [new_dir temp_dir now written],
                      calls := calls w @ [(opts, url, True)]\<rparr>)
      | Inr info \<Rightarrow>
          (case app_deliver max_file_size temp_dir
                  (w\<lparr>tmp := tmp w @ [new_dir temp_dir now written],
                     calls := calls w @ [(opts, url, True)]\<rparr>) of
             (r, w3) \<Rightarrow> (r, Some temp_dir, w3)))"
proof -
  have t: "truthy data" using assms(1,2) by (rule truthy_data)
  note fresh = mkdtemp_Inr(2) [OF assms(6)] and fs1 = mkdtemp_Inr(3) [OF assms(6)]
  show ?thesis
    unfolding app_download_try_def
    using t assms fresh
    by (simp add: fs1 write_items_new split: sum.splits)
qed

lemma backend_download_try_accepted:
  assumes "dict_get data ''url'' JNull = Inr url" and "truthy url"
    and "dict_get data ''type'' (JStr ''video'') = Inr download_type"
    and "dict_get data ''quality'' (JStr ''best'') = Inr quality"
    and "mkdtemp ''yt_download_'' random_part now (tmp w) = Inr (temp_dir, fs1)"
    and "backend_download_opts download_type quality temp_dir = Inr opts"
    and "ydl opts url True = (written, outcome)"
  shows "backend_download_try ydl random_part now data w =
     (case outcome of
        Inl x \<Rightarrow> (Inl x,
                    w\<lparr>tmp := tmp w @ [new_dir temp_dir now written],
                      calls := calls w @ [(opts, url, True)],
                      timers := timers w @ [(60, temp_dir)]\<rparr>)
      | Inr info \<Rightarrow>
          (case backend_deliver temp_dir
                  (w\<lparr>tmp := tmp w @ [new_dir temp_dir now written],
                     calls := calls w @ [(opts, url, True)]\<rparr>) of
             (r, w3) \<Rightarrow> (r, w3\<lparr>timers := timers w3 @ [(60, temp_dir)]\<rparr>)))"
proof -
  note fresh = mkdtemp_Inr(2) [OF assms(5)] and fs1 = mkdtemp_Inr(3) [OF assms(5)]
  show ?thesis
    unfolding backend_download_try_def backend_download_inner_def
    using assms fresh
    by (simp add: fs1 write_items_new split: sum.splits)
qed

lemma app_deliver_new:
  assumes "d \<notin> set (map e_name fs)" and "tmp w = fs @ [new_dir d now written]"
  shows "app_deliver max_file_size d w =
     (if filter item_is_file written = []
      then (Inr (ErrorResponse 500 (Msg
              ''No file was downloaded. The video might be unavailable or too large.'')), w)
      else if int (item_size (hd (sort_by_size_desc (filter item_is_file written)))) > max_file_size
      then (Inr (ErrorResponse 413 (TooLarge
              (int (item_size (hd (sort_by_size_desc (filter item_is_file written)))))
              max_file_size)), w)
      else (Inr (SendFile d
              (item_name (hd (sort_by_size_desc (filter item_is_file written))))
              (item_name (hd (sort_by_size_desc (filter item_is_file written))))
              (app_mimetype (item_name (hd (sort_by_size_desc (filter item_is_file written)))))),
            w\<lparr>timers := timers w @ [(60, d)]\<rparr>))"
  using assms by (simp add: app_deliver_def listdir_new Let_def)

lemma app_remove_temp_dir_new:
  assumes "d \<notin> set (map e_name fs)" and "tmp w = fs @ [new_dir d now written]" and "d \<noteq> []"
  shows "app_remove_temp_dir (Some d) w = w\<lparr>tmp := fs\<rparr>"
  using assms by (simp add: app_remove_temp_dir_def lookup_new rmtree_new)

section \<open>A download the collaborator fails\<close>

lemma app_download_failure:
  assumes "dict_get data ''url'' JNull = Inr url" and "truthy url"
    and "valid_host url = Inr True"
    and "dict_get data ''type'' (JStr ''video'') = Inr download_type"
    and "dict_get data ''quality'' (JStr ''best'') = Inr quality"
    and "mkdtemp ''yt_download_'' random_part now (tmp w) = Inr (temp_dir, fs1)"
    and "app_download_opts download_type quality temp_dir = Inr opts"
    and "ydl opts url True = (written, Inl x)"
  shows "app_download_video max_file_size ydl random_part now data w =
           (app_download_except x, w\<lparr>calls := calls w @ [(opts, url, True)]\<rparr>)"
proof -
  note fresh = mkdtemp_Inr(2) [OF assms(6)] and name = mkdtemp_Inr(1) [OF assms(6)]
  from name have ne: "temp_dir \<noteq> []" by simp
  let ?w2 = "w\<lparr>tmp := tmp w @ [new_dir temp_dir now written],
                calls := calls w @ [(opts, url, True)]\<rparr>"
  have body: "app_download_try max_file_size ydl random_part now data w
               = (Inl x, Some temp_dir, ?w2)"
    using app_download_try_accepted
      [where ydl = ydl and outcome = "Inl x" and max_file_size = max_file_size, OF assms]
    by simp
  have rm: "app_remove_temp_dir (Some temp_dir) ?w2 = w\<lparr>calls := calls w @ [(opts, url, True)]\<rparr>"
    using app_remove_temp_dir_new [OF fresh _ ne, of ?w2 now written] by simp
  show ?thesis
    by (simp add: app_download_video_def body rm)
qed

lemma backend_download_failure:
  assumes "dict_get data ''url'' JNull = Inr url" and "truthy url"
    and "dict_get data ''type'' (JStr ''video'') = Inr download_type"
    and "dict_get data ''quality'' (JStr ''best'') = Inr quality"
    and "mkdtemp ''yt_download_'' random_part now (tmp w) = Inr (temp_dir, fs1)"
    and "backend_download_opts download_type quality temp_dir = Inr opts"
    and "ydl opts url True = (written, Inl x)"
  shows "backend_download_video ydl random_part now data w =
           (ErrorResponse 500 (MsgExn [] x),
            w\<lparr>tmp := tmp w @ [new_dir temp_dir now written],
              calls := calls w @ [(opts, url, True)],
              timers := timers w @ [(60, temp_dir)]\<rparr>)"
  using backend_download_try_accepted [where ydl = ydl and outcome = "Inl x", OF assms]
  by (simp add: backend_download_video_def backend_except_def)

text \<open>
  C5, amended: a request has been accepted and its directory \<open>temp_dir\<close> allocated;
  the directory did not exist before. In \<^verbatim>\<open>app.py\<close>, when the collaborator then
  raises, the handler deletes the directory before it returns (the temporary directory
  is as it was before the request) and answers 400 \<^verbatim>\<open>Download failed: ...\<close> for the
  collaborator's \<^verbatim>\<open>DownloadError\<close> and 500 \<^verbatim>\<open>Server error: ...\<close> for any other
  exception. In \<^verbatim>\<open>backend/app.py\<close> the handler answers 500 for every exception, the
  directory is still there when it returns, and a cleanup thread is started for it.
\<close>

theorem download_failure_cleanup:
  assumes "dict_get data ''url'' JNull = Inr url" and "truthy url"
    and "dict_get data ''type'' (JStr ''video'') = Inr download_type"
    and "dict_get data ''quality'' (JStr ''best'') = Inr quality"
    and "mkdtemp ''yt_download_'' random_part now (tmp w) = Inr (temp_dir, fs1)"
  shows "lookup temp_dir (tmp w) = None
     \<and> (valid_host url = Inr True
          \<and> app_download_opts download_type quality temp_dir = Inr opts
          \<and> ydl opts url True = (written, Inl x)
        \<longrightarrow> app_download_video max_file_size ydl random_part now data w =
              (case x of
                 DownloadError m \<Rightarrow> ErrorResponse 400 (MsgExn ''Download failed: '' x)
               | _ \<Rightarrow> ErrorResponse 500 (MsgExn ''Server error: '' x),
               w\<lparr>calls := calls w @ [(opts, url, True)]\<rparr>))
     \<and> (backend_download_opts download_type quality temp_dir = Inr opts'
          \<and> ydl' opts' url True = (written', Inl x')
        \<longrightarrow> backend_download_video ydl' random_part now data w =
              (ErrorResponse 500 (MsgExn [] x'),
               w\<lparr>tmp := tmp w @ [new_dir temp_dir now written'],
                 calls := calls w @ [(opts', url, True)],
                 timers := timers w @ [(60, temp_dir)]\<rparr>))"
proof -
  from mkdtemp_Inr(2) [OF assms(5)] have "lookup temp_dir (tmp w) = None"
    by (simp add: lookup_None_iff)
  moreover have "app_download_except x =
      (case x of DownloadError m \<Rightarrow> ErrorResponse 400 (MsgExn ''Download failed: '' x)
       | _ \<Rightarrow> ErrorResponse 500 (MsgExn ''Server error: '' x))"
    by (cases x) simp_all
  ultimately show ?thesis
    using app_download_failure [OF assms(1,2) _ assms(3,4,5), where ydl = ydl]
      backend_download_failure [OF assms, where ydl = ydl']
    by auto
qed

text \<open>
  The collaborator reports \<^verbatim>\<open>Video unavailable\<close> for a YouTube URL: \<^verbatim>\<open>app.py\<close>
  answers 400 and the temporary directory is empty again.
\<close>

theorem download_failure_cleanup_witness:
  "app_download_video default_MAX_FILE_SIZE failing_ydl ''ab12'' 1000 youtube_request empty_world =
     (ErrorResponse 400 (MsgExn ''Download failed: '' (DownloadError ''Video unavailable'')),
      \<lparr>tmp = [],
       calls = [(video_opts ''best[filesize<100M]/best[height<=1080]'' ''yt_download_ab12'',
                 JStr ''https://youtu.be/abc'', True)],
       timers = []\<rparr>)"
proof -
  have 1: "dict_get youtube_request ''url'' JNull = Inr (JStr ''https://youtu.be/abc'')"
    and 2: "truthy (JStr ''https://youtu.be/abc'')"
    and 3: "dict_get youtube_request ''type'' (JStr ''video'') = Inr (JStr ''video'')"
    and 4: "dict_get youtube_request ''quality'' (JStr ''best'') = Inr (JStr ''best'')"
    and 5: "mkdtemp ''yt_download_'' ''ab12'' 1000 (tmp empty_world)
              = Inr (''yt_download_ab12'', [new_dir ''yt_download_ab12'' 1000 []])"
    by (simp_all add: youtube_request_def empty_world_def mkdtemp_def Let_def)
  have 6: "valid_host (JStr ''https://youtu.be/abc'') = Inr True
      \<and> app_download_opts (JStr ''video'') (JStr ''best'') ''yt_download_ab12''
          = Inr (video_opts ''best[filesize<100M]/best[height<=1080]'' ''yt_download_ab12'')
      \<and> failing_ydl (video_opts ''best[filesize<100M]/best[height<=1080]'' ''yt_download_ab12'')
            (JStr ''https://youtu.be/abc'') True = ([], Inl (DownloadError ''Video unavailable''))"
    by (simp add: eval_defs)
  from download_failure_cleanup [OF 1 2 3 4 5,
      where ydl = failing_ydl and x = "DownloadError ''Video unavailable''"
        and max_file_size = default_MAX_FILE_SIZE] 6
  show ?thesis by (simp add: empty_world_def)
qed

text \<open>
  The same request against \<^verbatim>\<open>backend/app.py\<close>: the answer is 500, not 400, and the
  directory is still in the temporary directory when the handler returns.
\<close>

theorem backend_download_failure_counterexample:
  "backend_download_video failing_ydl ''ab12'' 1000 youtube_request empty_world =
     (ErrorResponse 500 (MsgExn [] (DownloadError ''Video unavailable'')),
      \<lparr>tmp = [new_dir ''yt_download_ab12'' 1000 []],
       calls = [(video_opts ''best[filesize<50M]/best'' ''yt_download_ab12'',
                 JStr ''https://youtu.be/abc'', True)],
       timers = [(60, ''yt_download_ab12'')]\<rparr>)"
  by (simp add: eval_defs backend_download_video_def backend_download_try_def
      backend_download_inner_def backend_except_def write_items_def)

section \<open>A download the collaborator completes\<close>

text \<open>The head of a stable sort: a least key, and the first element that has it.\<close>

lemma hd_sort_key:
  assumes "xs \<noteq> []"
  shows "hd (sort_key f xs) \<in> set xs"
    and "\<forall>y\<in>set xs. f (hd (sort_key f xs)) \<le> f y"
    and "hd (sort_key f xs) = hd (filter (\<lambda>y. f y = f (hd (sort_key f xs))) xs)"
proof -
  from assms have "sort_key f xs \<noteq> []"
    by (metis set_empty set_sort)
  then obtain z zs where s: "sort_key f xs = z # zs"
    by (cases "sort_key f xs") auto
  have "set (z # zs) = set xs" using s set_sort [of f xs] by simp
  then show "hd (sort_key f xs) \<in> set xs" using s by auto
  have "sorted (map f (z # zs))" using s sorted_sort_key [of f xs] by simp
  then have "\<forall>y\<in>set zs. f z \<le> f y" by simp
  with \<open>set (z # zs) = set xs\<close> show "\<forall>y\<in>set xs. f (hd (sort_key f xs)) \<le> f y"
    using s by auto
  have "filter (\<lambda>y. f y = f z) (sort_key f xs) = filter (\<lambda>y. f y = f z) xs"
    by (rule sort_key_stable)
  then have "filter (\<lambda>y. f y = f z) xs = z # filter (\<lambda>y. f y = f z) zs"
    using s by simp
  then have "hd (filter (\<lambda>y. f y = f z) xs) = z" by simp
  then show "hd (sort_key f xs) = hd (filter (\<lambda>y. f y = f (hd (sort_key f xs))) xs)"
    using s by simp
qed

lemma largest_file:
  assumes "filter item_is_file written \<noteq> []"
  defines "c \<equiv> hd (sort_by_size_desc (filter item_is_file written))"
  shows "c \<in> set written" and "item_is_file c"
    and "\<forall>i\<in>set written. item_is_file i \<longrightarrow> item_size i \<le> item_size c"
    and "c = hd (filter (\<lambda>i. item_is_file i \<and> item_size i = item_size c) written)"
proof -
  let ?f = "\<lambda>i. - int (item_size i)"
  note h = hd_sort_key [OF assms(1), of ?f, folded sort_by_size_desc_def, folded c_def]
  from h(1) show "c \<in> set written" and "item_is_file c" by auto
  from h(2) show "\<forall>i\<in>set written. item_is_file i \<longrightarrow> item_size i \<le> item_size c" by auto
  from h(3) show "c = hd (filter (\<lambda>i. item_is_file i \<and> item_size i = item_size c) written)"
    by (simp add: conj_commute)
qed

text \<open>
  What both handlers answer once the collaborator has returned: no regular file, a
  file over the limit, or the file sent.
\<close>

lemma app_download_success:
  assumes "dict_get data ''url'' JNull = Inr url" and "truthy url"
    and "valid_host url = Inr True"
    and "dict_get data ''type'' (JStr ''video'') = Inr download_type"
    and "dict_get data ''quality'' (JStr ''best'') = Inr quality"
    and "mkdtemp ''yt_download_'' random_part now (tmp w) = Inr (temp_dir, fs1)"
    and "app_download_opts download_type quality temp_dir = Inr opts"
    and "ydl opts url True = (written, Inr info)"
  shows "app_download_video max_file_size ydl random_part now data w =
    (if filter item_is_file written = []
      then (ErrorResponse 500 (Msg
              ''No file was downloaded. The video might be unavailable or too large.''),
            w\<lparr>tmp := tmp w @ [new_dir temp_dir now written],
              calls := calls w @ [(opts, url, True)]\<rparr>)
      else if int (item_size (hd (sort_by_size_desc (filter item_is_file written)))) > max_file_size
      then (ErrorResponse 413 (TooLarge
              (int (item_size (hd (sort_by_size_desc (filter item_is_file written)))))
              max_file_size),
            w\<lparr>tmp := tmp w @ [new_dir temp_dir now written],
              calls := calls w @ [(opts, url, True)]\<rparr>)
      else (SendFile temp_dir
              (item_name (hd (sort_by_size_desc (filter item_is_file written))))
              (item_name (hd (sort_by_size_desc (filter item_is_file written))))
              (app_mimetype (item_name (hd (sort_by_size_desc (filter item_is_file written))))),
            w\<lparr>tmp := tmp w @ [new_dir temp_dir now written],
              calls := calls w @ [(opts, url, True)],
              timers := timers w @ [(60, temp_dir)]\<rparr>))"
proof -
  note fresh = mkdtemp_Inr(2) [OF assms(6)]
  let ?w2 = "w\<lparr>tmp := tmp w @ [new_dir temp_dir now written],
                calls := calls w @ [(opts, url, True)]\<rparr>"
  have body: "app_download_try max_file_size ydl random_part now data w
               = (case app_deliver max_file_size temp_dir ?w2 of
                    (r, w3) \<Rightarrow> (r, Some temp_dir, w3))"
    using app_download_try_accepted
      [where ydl = ydl and outcome = "Inr info" and max_file_size = max_file_size, OF assms]
    by simp
  have d: "tmp ?w2 = tmp w @ [new_dir temp_dir now written]" by simp
  show ?thesis
    unfolding app_download_video_def body app_deliver_new [OF fresh d]
    by simp
qed

lemma backend_deliver_new:
  assumes "d \<notin> set (map e_name fs)" and "tmp w = fs @ [new_dir d now written]"
  shows "backend_deliver d w =
     (if filter item_is_file written = []
      then (Inr (ErrorResponse 500 (Msg ''No file was downloaded'')), w)
      else if int (item_size (hd (filter item_is_file written))) > 100 * 1024 * 1024
      then (Inr (ErrorResponse 413 (Msg ''File too large for web download'')), w)
      else (Inr (SendFile d (item_name (hd (filter item_is_file written)))
                   (item_name (hd (filter item_is_file written)))
                   ''application/octet-stream''), w))"
  using assms by (simp add: backend_deliver_def listdir_new Let_def)

lemma backend_download_success:
  assumes "dict_get data ''url'' JNull = Inr url" and "truthy url"
    and "dict_get data ''type'' (JStr ''video'') = Inr download_type"
    and "dict_get data ''quality'' (JStr ''best'') = Inr quality"
    and "mkdtemp ''yt_download_'' random_part now (tmp w) = Inr (temp_dir, fs1)"
    and "backend_download_opts download_type quality temp_dir = Inr opts"
    and "ydl opts url True = (written, Inr info)"
  shows "backend_download_video ydl random_part now data w =
    (if filter item_is_file written = []
      then ErrorResponse 500 (Msg ''No file was downloaded'')
      else if int (item_size (hd (filter item_is_file written))) > 100 * 1024 * 1024
      then ErrorResponse 413 (Msg ''File too large for web download'')
      else SendFile temp_dir (item_name (hd (filter item_is_file written)))
             (item_name (hd (filter item_is_file written))) ''application/octet-stream'',
     w\<lparr>tmp := tmp w @ [new_dir temp_dir now written],
       calls := calls w @ [(opts, url, True)],
       timers := timers w @ [(60, temp_dir)]\<rparr>)"
proof -
  note fresh = mkdtemp_Inr(2) [OF assms(5)]
  let ?w2 = "w\<lparr>tmp := tmp w @ [new_dir temp_dir now written],
                calls := calls w @ [(opts, url, True)]\<rparr>"
  have body: "backend_download_try ydl random_part now data w
               = (case backend_deliver temp_dir ?w2 of
                    (r, w3) \<Rightarrow> (r, w3\<lparr>timers := timers w3 @ [(60, temp_dir)]\<rparr>))"
    using backend_download_try_accepted [where ydl = ydl and outcome = "Inr info", OF assms]
    by simp
  have d: "tmp ?w2 = tmp w @ [new_dir temp_dir now written]" by simp
  show ?thesis
    unfolding backend_download_video_def body backend_deliver_new [OF fresh d]
    by simp
qed

text \<open>
  C2, amended: a request has been accepted, its directory allocated, and the collaborator
  has returned leaving at least one regular file in it. In \<^verbatim>\<open>app.py\<close>, when no
  file exceeds the limit, the file streamed is a regular file of the directory whose
  byte size is largest among the regular files there, the first such in listing order.
  In \<^verbatim>\<open>backend/app.py\<close> the file streamed is the first regular file listed, if it
  is within 100 MB, whatever the sizes of the others.
\<close>

theorem download_sends_largest_file:
  assumes "dict_get data ''url'' JNull = Inr url" and "truthy url"
    and "dict_get data ''type'' (JStr ''video'') = Inr download_type"
    and "dict_get data ''quality'' (JStr ''best'') = Inr quality"
    and "mkdtemp ''yt_download_'' random_part now (tmp w) = Inr (temp_dir, fs1)"
  shows "(valid_host url = Inr True
          \<and> app_download_opts download_type quality temp_dir = Inr opts
          \<and> ydl opts url True = (written, Inr info)
          \<and> (\<exists>i\<in>set written. item_is_file i)
          \<and> (\<forall>i\<in>set written. item_is_file i \<longrightarrow> int (item_size i) \<le> max_file_size)
        \<longrightarrow> (\<exists>c. c \<in> set written \<and> item_is_file c
                \<and> (\<forall>i\<in>set written. item_is_file i \<longrightarrow> item_size i \<le> item_size c)
                \<and> c = hd (filter (\<lambda>i. item_is_file i \<and> item_size i = item_size c) written)
                \<and> app_download_video max_file_size ydl random_part now data w =
                    (SendFile temp_dir (item_name c) (item_name c) (app_mimetype (item_name c)),
                     w\<lparr>tmp := tmp w @ [new_dir temp_dir now written],
                       calls := calls w @ [(opts, url, True)],
                       timers := timers w @ [(60, temp_dir)]\<rparr>)))
     \<and> (backend_download_opts download_type quality temp_dir = Inr opts'
          \<and> ydl' opts' url True = (written', Inr info')
          \<and> (\<exists>i\<in>set written'. item_is_file i)
          \<and> int (item_size (hd (filter item_is_file written'))) \<le> 100 * 1024 * 1024
        \<longrightarrow> backend_download_video ydl' random_part now data w =
              (SendFile temp_dir (item_name (hd (filter item_is_file written')))
                 (item_name (hd (filter item_is_file written'))) ''application/octet-stream'',
               w\<lparr>tmp := tmp w @ [new_dir temp_dir now written'],
                 calls := calls w @ [(opts', url, True)],
                 timers := timers w @ [(60, temp_dir)]\<rparr>))"
proof (intro conjI impI)
  assume a: "valid_host url = Inr True
          \<and> app_download_opts download_type quality temp_dir = Inr opts
          \<and> ydl opts url True = (written, Inr info)
          \<and> (\<exists>i\<in>set written. item_is_file i)
          \<and> (\<forall>i\<in>set written. item_is_file i \<longrightarrow> int (item_size i) \<le> max_file_size)"
  then have ne: "filter item_is_file written \<noteq> []"
    by (auto simp add: filter_empty_conv)
  let ?c = "hd (sort_by_size_desc (filter item_is_file written))"
  note l = largest_file [OF ne]
  from a l(1,2) have fits: "\<not> int (item_size ?c) > max_file_size" by auto
  have "app_download_video max_file_size ydl random_part now data w =
          (SendFile temp_dir (item_name ?c) (item_name ?c) (app_mimetype (item_name ?c)),
           w\<lparr>tmp := tmp w @ [new_dir temp_dir now written],
             calls := calls w @ [(opts, url, True)],
             timers := timers w @ [(60, temp_dir)]\<rparr>)"
    using app_download_success [OF assms(1,2) _ assms(3,4,5), where ydl = ydl and opts = opts
        and written = written and info = info and max_file_size = max_file_size] a ne fits
    by simp
  with l show "\<exists>c. c \<in> set written \<and> item_is_file c
                \<and> (\<forall>i\<in>set written. item_is_file i \<longrightarrow> item_size i \<le> item_size c)
                \<and> c = hd (filter (\<lambda>i. item_is_file i \<and> item_size i = item_size c) written)
                \<and> app_download_video max_file_size ydl random_part now data w =
                    (SendFile temp_dir (item_name c) (item_name c) (app_mimetype (item_name c)),
                     w\<lparr>tmp := tmp w @ [new_dir temp_dir now written],
                       calls := calls w @ [(opts, url, True)],
                       timers := timers w @ [(60, temp_dir)]\<rparr>)"
    by blast
next
  assume b: "backend_download_opts download_type quality temp_dir = Inr opts'
          \<and> ydl' opts' url True = (written', Inr info')
          \<and> (\<exists>i\<in>set written'. item_is_file i)
          \<and> int (item_size (hd (filter item_is_file written'))) \<le> 100 * 1024 * 1024"
  then have ne: "filter item_is_file written' \<noteq> []"
    by (auto simp add: filter_empty_conv)
  show "backend_download_video ydl' random_part now data w =
              (SendFile temp_dir (item_name (hd (filter item_is_file written')))
                 (item_name (hd (filter item_is_file written'))) ''application/octet-stream'',
               w\<lparr>tmp := tmp w @ [new_dir temp_dir now written'],
                 calls := calls w @ [(opts', url, True)],
                 timers := timers w @ [(60, temp_dir)]\<rparr>)"
    using backend_download_success [OF assms, where ydl = ydl' and opts = opts'
        and written = written' and info = info'] b ne
    by simp
qed

text \<open>
  The collaborator leaves \<^verbatim>\<open>clip.jpg\<close> (20000 bytes) and then \<^verbatim>\<open>clip.mp4\<close>
  (5000000 bytes): \<^verbatim>\<open>app.py\<close> sends the video.
\<close>

theorem download_sends_largest_file_witness:
  "app_download_video default_MAX_FILE_SIZE two_files_ydl ''ab12'' 1000 youtube_request
      empty_world =
     (SendFile ''yt_download_ab12'' ''clip.mp4'' ''clip.mp4'' ''video/mp4'',
      \<lparr>tmp = [new_dir ''yt_download_ab12'' 1000 [thumbnail_item, video_item]],
       calls = [(video_opts ''best[filesize<100M]/best[height<=1080]'' ''yt_download_ab12'',
                 JStr ''https://youtu.be/abc'', True)],
       timers = [(60, ''yt_download_ab12'')]\<rparr>)"
proof -
  let ?opts = "video_opts ''best[filesize<100M]/best[height<=1080]'' ''yt_download_ab12''"
  have 1: "dict_get youtube_request ''url'' JNull = Inr (JStr ''https://youtu.be/abc'')"
    and 2: "truthy (JStr ''https://youtu.be/abc'')"
    and 3: "dict_get youtube_request ''type'' (JStr ''video'') = Inr (JStr ''video'')"
    and 4: "dict_get youtube_request ''quality'' (JStr ''best'') = Inr (JStr ''best'')"
    and 5: "mkdtemp ''yt_download_'' ''ab12'' 1000 (tmp empty_world)
              = Inr (''yt_download_ab12'', [new_dir ''yt_download_ab12'' 1000 []])"
    by (simp_all add: youtube_request_def empty_world_def mkdtemp_def Let_def)
  have 6: "valid_host (JStr ''https://youtu.be/abc'') = Inr True
      \<and> app_download_opts (JStr ''video'') (JStr ''best'') ''yt_download_ab12'' = Inr ?opts
      \<and> two_files_ydl ?opts (JStr ''https://youtu.be/abc'') True
          = ([thumbnail_item, video_item], Inr empty_info)
      \<and> (\<exists>i\<in>set [thumbnail_item, video_item]. item_is_file i)
      \<and> (\<forall>i\<in>set [thumbnail_item, video_item].
            item_is_file i \<longrightarrow> int (item_size i) \<le> default_MAX_FILE_SIZE)"
    by (simp add: eval_defs two_files_ydl_def thumbnail_item_def video_item_def
        default_MAX_FILE_SIZE_def MAX_FILE_SIZE_def)
  from download_sends_largest_file [OF 1 2 3 4 5,
      where ydl = two_files_ydl and opts = "?opts" and info = empty_info
        and written = "[thumbnail_item, video_item]"
        and max_file_size = default_MAX_FILE_SIZE] 6
  obtain c where c: "c \<in> set [thumbnail_item, video_item]"
    and largest: "\<forall>i\<in>set [thumbnail_item, video_item].
                    item_is_file i \<longrightarrow> item_size i \<le> item_size c"
    and sent: "app_download_video default_MAX_FILE_SIZE two_files_ydl ''ab12'' 1000
                 youtube_request empty_world =
                 (SendFile ''yt_download_ab12'' (item_name c) (item_name c)
                    (app_mimetype (item_name c)),
                  empty_world\<lparr>tmp := tmp empty_world
                                  @ [new_dir ''yt_download_ab12'' 1000
                                       [thumbnail_item, video_item]],
                    calls := calls empty_world @ [(?opts, JStr ''https://youtu.be/abc'', True)],
                    timers := timers empty_world @ [(60, ''yt_download_ab12'')]\<rparr>)"
    by blast
  from c largest have "c = video_item"
    by (auto simp add: thumbnail_item_def video_item_def)
  with sent show ?thesis
    by (simp add: video_item_def app_mimetype_def suffix_to_prefix empty_world_def)
qed

text \<open>
  The same request against \<^verbatim>\<open>backend/app.py\<close>: the file sent is \<^verbatim>\<open>clip.jpg\<close>,
  the first listed, and not the largest.
\<close>

theorem backend_sends_first_file_counterexample:
  "item_size thumbnail_item < item_size video_item
   \<and> backend_download_video two_files_ydl ''ab12'' 1000 youtube_request empty_world =
     (SendFile ''yt_download_ab12'' ''clip.jpg'' ''clip.jpg'' ''application/octet-stream'',
      \<lparr>tmp = [new_dir ''yt_download_ab12'' 1000 [thumbnail_item, video_item]],
       calls = [(video_opts ''best[filesize<50M]/best'' ''yt_download_ab12'',
                 JStr ''https://youtu.be/abc'', True)],
       timers = [(60, ''yt_download_ab12'')]\<rparr>)"
  by (simp add: eval_defs backend_download_video_def backend_download_try_def
      backend_download_inner_def backend_deliver_def listdir_def lookup_def write_items_def
      two_files_ydl_def thumbnail_item_def video_item_def)

section \<open>A download over the size limit\<close>

text \<open>
  C4: the collaborator leaves one file of 150 MB and the limit is the default of
  100 MB. \<^verbatim>\<open>app.py\<close> answers 413, and when it returns the directory is still in the
  temporary directory with the file in it; no cleanup thread has been started for it.
\<close>

theorem app_oversize_leaves_directory:
  "app_download_video default_MAX_FILE_SIZE big_file_ydl ''ab12'' 1000 youtube_request
      empty_world =
     (ErrorResponse 413 (TooLarge 157286400 104857600),
      \<lparr>tmp = [new_dir ''yt_download_ab12'' 1000 [big_item]],
       calls = [(video_opts ''best[filesize<100M]/best[height<=1080]'' ''yt_download_ab12'',
                 JStr ''https://youtu.be/abc'', True)],
       timers = []\<rparr>)"
  by (simp add: eval_defs app_download_video_def app_download_try_def app_deliver_def
      listdir_def lookup_def write_items_def sort_by_size_desc_def big_file_ydl_def
      big_item_def default_MAX_FILE_SIZE_def MAX_FILE_SIZE_def)

text \<open>
  \<^verbatim>\<open>backend/app.py\<close> on the same input: 413 as well, and the directory is left to the
  cleanup thread its \<^verbatim>\<open>finally\<close> starts.
\<close>

lemma backend_oversize_schedules_cleanup:
  "backend_download_video big_file_ydl ''ab12'' 1000 youtube_request empty_world =
     (ErrorResponse 413 (Msg ''File too large for web download''),
      \<lparr>tmp = [new_dir ''yt_download_ab12'' 1000 [big_item]],
       calls = [(video_opts ''best[filesize<50M]/best'' ''yt_download_ab12'',
                 JStr ''https://youtu.be/abc'', True)],
       timers = [(60, ''yt_download_ab12'')]\<rparr>)"
  by (simp add: eval_defs backend_download_video_def backend_download_try_def
      backend_download_inner_def backend_deliver_def listdir_def lookup_def write_items_def
      big_file_ydl_def big_item_def)

section \<open>The cleanup thread of a download\<close>

lemma app_deliver_timers:
  assumes "app_deliver max_file_size d w = (r, w')"
  shows "(\<exists>x. r = Inl x \<and> w' = w)
       \<or> (\<exists>resp. r = Inr resp \<and> sent_from resp = None \<and> w' = w)
       \<or> (\<exists>resp. r = Inr resp \<and> sent_from resp = Some d
              \<and> w' = w\<lparr>timers := timers w @ [(60, d)]\<rparr>)"
  using assms
  by (auto simp add: app_deliver_def Let_def split: sum.splits if_splits)

lemma app_download_try_timers:
  assumes "app_download_try max_file_size ydl random_part now data w = (r, td, w')"
  shows "(\<exists>x. r = Inl x \<and> timers w' = timers w)
       \<or> (\<exists>resp. r = Inr resp \<and> sent_from resp = None \<and> timers w' = timers w)
       \<or> (\<exists>resp. r = Inr resp \<and> sent_from resp = Some (''yt_download_'' @ random_part)
              \<and> timers w' = timers w @ [(60, ''yt_download_'' @ random_part)])"
proof (cases "\<exists>url download_type quality temp_dir fs1 opts info.
          truthy data \<and> dict_get data ''url'' JNull = Inr url
          \<and> dict_get data ''type'' (JStr ''video'') = Inr download_type
          \<and> dict_get data ''quality'' (JStr ''best'') = Inr quality
          \<and> truthy url \<and> valid_host url = Inr True
          \<and> mkdtemp ''yt_download_'' random_part now (tmp w) = Inr (temp_dir, fs1)
          \<and> app_download_opts download_type quality temp_dir = Inr opts
          \<and> snd (ydl opts url True) = Inr info")
  case True
  then obtain url download_type quality temp_dir fs1 opts info
    where h: "truthy data" "dict_get data ''url'' JNull = Inr url"
      "dict_get data ''type'' (JStr ''video'') = Inr download_type"
      "dict_get data ''quality'' (JStr ''best'') = Inr quality"
      "truthy url" "valid_host url = Inr True"
      "mkdtemp ''yt_download_'' random_part now (tmp w) = Inr (temp_dir, fs1)"
      "app_download_opts download_type quality temp_dir = Inr opts"
      "snd (ydl opts url True) = Inr info"
    by blast
  obtain written where y: "ydl opts url True = (written, Inr info)"
    using h(9) by (cases "ydl opts url True") auto
  let ?w2 = "w\<lparr>tmp := tmp w @ [new_dir temp_dir now written],
                calls := calls w @ [(opts, url, True)]\<rparr>"
  have body: "app_download_try max_file_size ydl random_part now data w
               = (case app_deliver max_file_size temp_dir ?w2 of
                    (r, w3) \<Rightarrow> (r, Some temp_dir, w3))"
    using app_download_try_accepted
      [where ydl = ydl and outcome = "Inr info" and max_file_size = max_file_size,
        OF h(2) h(5) h(6) h(3) h(4) h(7) h(8) y]
    by simp
  obtain r3 w3 where d: "app_deliver max_file_size temp_dir ?w2 = (r3, w3)"
    by (cases "app_deliver max_file_size temp_dir ?w2")
  from body d assms have "r = r3" and "w' = w3" by simp_all
  moreover note app_deliver_timers [OF d] mkdtemp_Inr(1) [OF h(7)]
  ultimately show ?thesis by auto
next
  case False
  with assms show ?thesis
    by (auto simp add: app_download_try_def Let_def
        split: if_splits sum.splits prod.splits bool.splits)
qed


lemma app_remove_temp_dir_timers: "timers (app_remove_temp_dir td w) = timers w"
  by (simp add: app_remove_temp_dir_def split: option.splits)

lemma sent_from_app_download_except: "sent_from (app_download_except x) = None"
  by (cases x) simp_all

lemma app_download_video_timers:
  "timers (snd (app_download_video max_file_size ydl random_part now data w)) =
     (case sent_from (fst (app_download_video max_file_size ydl random_part now data w)) of
        Some d \<Rightarrow> timers w @ [(60, d)]
      | None \<Rightarrow> timers w)
   \<and> (sent_from (fst (app_download_video max_file_size ydl random_part now data w))
         \<in> {None, Some (''yt_download_'' @ random_part)})"
proof -
  obtain r td w' where b: "app_download_try max_file_size ydl random_part now data w = (r, td, w')"
    by (cases "app_download_try max_file_size ydl random_part now data w")
  from app_download_try_timers [OF b] show ?thesis
    by (auto simp add: app_download_video_def b app_remove_temp_dir_timers
        sent_from_app_download_except)
qed

lemma backend_deliver_world: "snd (backend_deliver d w) = w"
  by (simp add: backend_deliver_def Let_def split: sum.splits)

lemma backend_download_inner_timers:
  "timers (snd (backend_download_inner ydl url download_type quality d w)) = timers w"
  by (simp add: backend_download_inner_def Let_def backend_deliver_world
      split: sum.splits prod.splits)

lemma backend_download_video_timers:
  assumes "dict_get data ''url'' JNull = Inr url" and "truthy url"
    and "mkdtemp ''yt_download_'' random_part now (tmp w) = Inr (temp_dir, fs1)"
  shows "timers (snd (backend_download_video ydl random_part now data w))
           = timers w @ [(60, temp_dir)]"
proof -
  from assms(1) obtain kvs where kvs: "data = JObj kvs" by (cases data) auto
  define download_type where
    "download_type = (case map_of kvs ''type'' of None \<Rightarrow> JStr ''video'' | Some v \<Rightarrow> v)"
  define quality where
    "quality = (case map_of kvs ''quality'' of None \<Rightarrow> JStr ''best'' | Some v \<Rightarrow> v)"
  obtain r w2 where
    i: "backend_download_inner ydl url download_type quality temp_dir (w\<lparr>tmp := fs1\<rparr>) = (r, w2)"
    by (cases "backend_download_inner ydl url download_type quality temp_dir (w\<lparr>tmp := fs1\<rparr>)")
  have t: "timers w2 = timers w"
    using backend_download_inner_timers
      [of ydl url download_type quality temp_dir "w\<lparr>tmp := fs1\<rparr>"] i
    by simp
  have "backend_download_try ydl random_part now data w
          = (r, w2\<lparr>timers := timers w2 @ [(60, temp_dir)]\<rparr>)"
    using assms kvs i
    by (simp add: backend_download_try_def download_type_def quality_def)
  with t show ?thesis
    by (cases r) (simp_all add: backend_download_video_def)
qed

text \<open>
  C7, amended: in \<^verbatim>\<open>app.py\<close> a download request starts a cleanup thread exactly when
  its response streams a file, and then exactly one, for the directory of that download
  and with a delay of 60 seconds; every other response (a validation error, an
  extraction error, no file produced, a file over the limit, any other exception) leaves
  the list of threads as it was. The thread runs \<open>cleanup_later\<close>: a recursive delete
  whose errors are ignored. In \<^verbatim>\<open>backend/app.py\<close> one such thread is started for every
  request that has a URL and gets its directory, whatever the response.
\<close>

theorem cleanup_timer_scheduling:
  "timers (snd (app_download_video max_file_size ydl random_part now data w)) =
     (case sent_from (fst (app_download_video max_file_size ydl random_part now data w)) of
        Some d \<Rightarrow> timers w @ [(60, d)]
      | None \<Rightarrow> timers w)
   \<and> (sent_from (fst (app_download_video max_file_size ydl random_part now data w))
         \<in> {None, Some (''yt_download_'' @ random_part)})
   \<and> cleanup_later d fs = (None, snd (rmtree d True fs))
   \<and> (dict_get data ''url'' JNull = Inr url \<and> truthy url
        \<and> mkdtemp ''yt_download_'' random_part now (tmp w) = Inr (temp_dir, fs1)
      \<longrightarrow> timers (snd (backend_download_video ydl' random_part now data w))
            = timers w @ [(60, temp_dir)])"
  using app_download_video_timers [of max_file_size ydl random_part now data w]
    backend_download_video_timers [of data url random_part now w temp_dir fs1 ydl']
  by (simp add: cleanup_later_eq)

lemma app_sends_two_files:
  "fst (app_download_video default_MAX_FILE_SIZE two_files_ydl ''ab12'' 1000 youtube_request
          empty_world)
     = SendFile ''yt_download_ab12'' ''clip.mp4'' ''clip.mp4'' ''video/mp4''"
  by (simp add: eval_defs app_download_video_def app_download_try_def app_deliver_def
      listdir_def lookup_def write_items_def sort_by_size_desc_def two_files_ydl_def
      thumbnail_item_def video_item_def default_MAX_FILE_SIZE_def MAX_FILE_SIZE_def
      app_mimetype_def suffix_to_prefix)

lemma app_fails_download:
  "fst (app_download_video default_MAX_FILE_SIZE failing_ydl ''ab12'' 1000 youtube_request
          empty_world)
     = ErrorResponse 400 (MsgExn ''Download failed: '' (DownloadError ''Video unavailable''))"
  by (simp add: eval_defs app_download_video_def app_download_try_def)

lemma app_refuses_big_file:
  "fst (app_download_video default_MAX_FILE_SIZE big_file_ydl ''ab12'' 1000 youtube_request
          empty_world)
     = ErrorResponse 413 (TooLarge 157286400 104857600)"
  by (simp add: eval_defs app_download_video_def app_download_try_def app_deliver_def
      listdir_def lookup_def write_items_def sort_by_size_desc_def big_file_ydl_def
      big_item_def default_MAX_FILE_SIZE_def MAX_FILE_SIZE_def)

text \<open>
  Three requests to \<^verbatim>\<open>app.py\<close>: the one that streams a file starts one thread, the
  one the collaborator fails and the one over the limit start none. The failed request
  to \<^verbatim>\<open>backend/app.py\<close> starts one.
\<close>

theorem cleanup_timer_scheduling_witness:
  "timers (snd (app_download_video default_MAX_FILE_SIZE two_files_ydl ''ab12'' 1000
                  youtube_request empty_world)) = [(60, ''yt_download_ab12'')]
   \<and> timers (snd (app_download_video default_MAX_FILE_SIZE failing_ydl ''ab12'' 1000
                  youtube_request empty_world)) = []
   \<and> timers (snd (app_download_video default_MAX_FILE_SIZE big_file_ydl ''ab12'' 1000
                  youtube_request empty_world)) = []
   \<and> timers (snd (backend_download_video failing_ydl ''ab12'' 1000
                  youtube_request empty_world)) = [(60, ''yt_download_ab12'')]"
proof -
  have 1: "dict_get youtube_request ''url'' JNull = Inr (JStr ''https://youtu.be/abc'')
      \<and> truthy (JStr ''https://youtu.be/abc'')
      \<and> mkdtemp ''yt_download_'' ''ab12'' 1000 (tmp empty_world)
          = Inr (''yt_download_ab12'', [new_dir ''yt_download_ab12'' 1000 []])"
    by (simp add: youtube_request_def empty_world_def mkdtemp_def Let_def)
  have e: "timers empty_world = []" by (simp add: empty_world_def)
  from cleanup_timer_scheduling
    [of default_MAX_FILE_SIZE two_files_ydl "''ab12''" 1000 youtube_request empty_world
        "''yt_download_ab12''" "[]" "JStr ''https://youtu.be/abc''" "''yt_download_ab12''"
        "[new_dir ''yt_download_ab12'' 1000 []]" failing_ydl] 1
  have a: "timers (snd (app_download_video default_MAX_FILE_SIZE two_files_ydl ''ab12'' 1000
                  youtube_request empty_world)) = [(60, ''yt_download_ab12'')]
      \<and> timers (snd (backend_download_video failing_ydl ''ab12'' 1000
                  youtube_request empty_world)) = [(60, ''yt_download_ab12'')]"
    by (simp add: app_sends_two_files e)
  from cleanup_timer_scheduling
    [of default_MAX_FILE_SIZE failing_ydl "''ab12''" 1000 youtube_request empty_world]
  have b: "timers (snd (app_download_video default_MAX_FILE_SIZE failing_ydl ''ab12'' 1000
                  youtube_request empty_world)) = []"
    by (simp add: app_fails_download e)
  from cleanup_timer_scheduling
    [of default_MAX_FILE_SIZE big_file_ydl "''ab12''" 1000 youtube_request empty_world]
  have c: "timers (snd (app_download_video default_MAX_FILE_SIZE big_file_ydl ''ab12'' 1000
                  youtube_request empty_world)) = []"
    by (simp add: app_refuses_big_file e)
  from a b c show ?thesis by simp
qed

text \<open>
  The claim has a failed download start no thread. \<^verbatim>\<open>backend/app.py\<close> answers the
  150 MB download with 413 and has started a thread for its directory all the same.
\<close>

theorem backend_timer_on_failure_counterexample:
  "fst (backend_download_video big_file_ydl ''ab12'' 1000 youtube_request empty_world)
     = ErrorResponse 413 (Msg ''File too large for web download'')
   \<and> timers (snd (backend_download_video big_file_ydl ''ab12'' 1000 youtube_request
                    empty_world)) = [(60, ''yt_download_ab12'')]"
  by (simp add: eval_defs backend_download_video_def backend_download_try_def
      backend_download_inner_def backend_deliver_def listdir_def lookup_def write_items_def
      big_file_ydl_def big_item_def)

section \<open>The host check\<close>

lemma dict_get_str:
  assumes "dict_get data k JNull = Inr (JStr u)"
  obtains kvs where "data = JObj kvs" and "kvs \<noteq> []"
proof (cases data)
  case (JObj kvs)
  with assms have "map_of kvs k = Some (JStr u)" by (auto split: option.splits)
  then have "kvs \<noteq> []" by auto
  with JObj that show ?thesis by blast
qed (insert assms, simp_all)

lemma valid_host_str:
  "valid_host (JStr u) = Inr (sublist ''youtube.com'' u \<or> sublist ''youtu.be'' u)"
  by (simp add: valid_host_def split: bool.splits)

lemma app_get_video_info_rejects:
  assumes "dict_get data ''url'' JNull = Inr (JStr u)"
    and "\<not> sublist ''youtube.com'' u" and "\<not> sublist ''youtu.be'' u"
  shows "app_get_video_info ydl data w =
           (ErrorResponse 400 (Msg (if u = [] then ''URL is required''
                                    else ''Please provide a valid YouTube URL'')), w)"
proof -
  from assms(1) obtain kvs where "data = JObj kvs" and "kvs \<noteq> []"
    by (rule dict_get_str)
  with assms show ?thesis
    by (simp add: app_get_video_info_def app_get_video_info_try_def valid_host_str)
qed

lemma app_download_video_rejects:
  assumes "dict_get data ''url'' JNull = Inr (JStr u)"
    and "\<not> sublist ''youtube.com'' u" and "\<not> sublist ''youtu.be'' u"
  shows "app_download_video max_file_size ydl random_part now data w =
           (ErrorResponse 400 (Msg (if u = [] then ''URL is required''
                                    else ''Please provide a valid YouTube URL'')), w)"
proof -
  from assms(1) obtain kvs where "data = JObj kvs" and "kvs \<noteq> []"
    by (rule dict_get_str)
  with assms show ?thesis
    by (simp add: app_download_video_def app_download_try_def valid_host_str)
qed

lemma backend_get_video_info_calls:
  assumes "dict_get data ''url'' JNull = Inr (JStr u)" and "u \<noteq> []"
  shows "calls (snd (backend_get_video_info ydl data w))
           = calls w @ [(backend_info_opts, JStr u, False)]"
  using assms
  by (simp add: backend_get_video_info_def backend_get_video_info_try_def Let_def
      split: sum.splits)

lemma backend_get_formats_calls:
  assumes "dict_get data ''url'' JNull = Inr (JStr u)" and "u \<noteq> []"
  shows "calls (snd (backend_get_formats ydl data w))
           = calls w @ [(formats_opts, JStr u, False)]"
  using assms
  by (simp add: backend_get_formats_def backend_get_formats_try_def Let_def
      split: sum.splits)

lemma app_get_formats_calls:
  assumes "dict_get data ''url'' JNull = Inr (JStr u)" and "u \<noteq> []"
  shows "calls (snd (app_get_formats ydl data w))
           = calls w @ [(formats_opts, JStr u, False)]"
proof -
  from assms(1) obtain kvs where "data = JObj kvs" and "kvs \<noteq> []"
    by (rule dict_get_str)
  with assms show ?thesis
    by (simp add: app_get_formats_def app_get_formats_try_def Let_def
      split: sum.splits)
qed

text \<open>
  C1, amended: the body is a JSON object whose \<^verbatim>\<open>url\<close> is a string that contains
  neither \<^verbatim>\<open>youtube.com\<close> nor \<^verbatim>\<open>youtu.be\<close>. The video-info and the download
  handler of \<^verbatim>\<open>app.py\<close> then answer 400 with an error body and leave the world as it
  is: the collaborator is not called and no directory is made. The video-info and the
  formats handler of \<^verbatim>\<open>backend/app.py\<close> check no host: they call the collaborator
  with any URL string that is not empty.
\<close>

theorem unrecognized_host_rejected:
  assumes "dict_get data ''url'' JNull = Inr (JStr u)"
    and "\<not> sublist ''youtube.com'' u" and "\<not> sublist ''youtu.be'' u"
  shows "app_get_video_info ydl data w =
           (ErrorResponse 400 (Msg (if u = [] then ''URL is required''
                                    else ''Please provide a valid YouTube URL'')), w)
     \<and> app_download_video max_file_size ydl random_part now data w =
           (ErrorResponse 400 (Msg (if u = [] then ''URL is required''
                                    else ''Please provide a valid YouTube URL'')), w)
     \<and> (u \<noteq> [] \<longrightarrow>
           calls (snd (backend_get_video_info ydl data w))
             = calls w @ [(backend_info_opts, JStr u, False)]
         \<and> calls (snd (backend_get_formats ydl data w))
             = calls w @ [(formats_opts, JStr u, False)])"
  using app_get_video_info_rejects [OF assms] app_download_video_rejects [OF assms]
    backend_get_video_info_calls [OF assms(1)] backend_get_formats_calls [OF assms(1)]
  by simp

lemma other_site: "\<not> sublist ''youtube.com'' ''https://example.com/watch?v=abc''
   \<and> \<not> sublist ''youtu.be'' ''https://example.com/watch?v=abc''"
  by (simp add: sublist_code(3))

text \<open>
  A request for \<^verbatim>\<open>https://example.com/watch?v=abc\<close>: both handlers of
  \<^verbatim>\<open>app.py\<close> answer 400 and record no call.
\<close>

theorem unrecognized_host_rejected_witness:
  "app_get_video_info failing_ydl other_site_request empty_world =
      (ErrorResponse 400 (Msg ''Please provide a valid YouTube URL''), empty_world)
   \<and> app_download_video default_MAX_FILE_SIZE failing_ydl ''ab12'' 1000 other_site_request
        empty_world =
      (ErrorResponse 400 (Msg ''Please provide a valid YouTube URL''), empty_world)
   \<and> calls (snd (backend_get_formats failing_ydl other_site_request empty_world))
       = [(formats_opts, JStr ''https://example.com/watch?v=abc'', False)]"
proof -
  have 1: "dict_get other_site_request ''url'' JNull
             = Inr (JStr ''https://example.com/watch?v=abc'')"
    by (simp add: other_site_request_def)
  from other_site have 2: "\<not> sublist ''youtube.com'' ''https://example.com/watch?v=abc''"
    and 3: "\<not> sublist ''youtu.be'' ''https://example.com/watch?v=abc''" by simp_all
  from unrecognized_host_rejected [OF 1 2 3, of failing_ydl empty_world
      default_MAX_FILE_SIZE "''ab12''" 1000]
  show ?thesis by (simp add: empty_world_def)
qed

text \<open>
  The same request to the video-info handler of \<^verbatim>\<open>backend/app.py\<close>: the
  collaborator is called with the URL, and its failure comes back as a 500.
\<close>

theorem backend_accepts_any_host_counterexample:
  "\<not> sublist ''youtube.com'' ''https://example.com/watch?v=abc''
   \<and> \<not> sublist ''youtu.be'' ''https://example.com/watch?v=abc''
   \<and> backend_get_video_info failing_ydl other_site_request empty_world =
       (ErrorResponse 500 (MsgExn [] (DownloadError ''Video unavailable'')),
        \<lparr>tmp = [],
         calls = [(backend_info_opts, JStr ''https://example.com/watch?v=abc'', False)],
         timers = []\<rparr>)"
  by (simp add: sublist_code(3) backend_get_video_info_def backend_get_video_info_try_def
      backend_except_def other_site_request_def failing_ydl_def empty_world_def Let_def)

text \<open>
  The formats handler of \<^verbatim>\<open>app.py\<close> has the checks of its two siblings but for the
  host check, so it calls the collaborator as well.
\<close>

lemma app_get_formats_other_site:
  "calls (snd (app_get_formats failing_ydl other_site_request empty_world))
     = [(formats_opts, JStr ''https://example.com/watch?v=abc'', False)]"
  using app_get_formats_calls [where data = other_site_request
      and u = "''https://example.com/watch?v=abc''" and ydl = failing_ydl and w = empty_world]
  by (simp add: other_site_request_def empty_world_def)

section \<open>Type and quality of a download\<close>

lemma app_download_opts_str:
  "app_download_opts (JStr t) (JStr q) d =
     Inr (if t = ''audio'' then audio_opts d
          else video_opts (case map_of app_quality_map q of
                             None \<Rightarrow> ''best[filesize<100M]/best'' | Some f \<Rightarrow> f) d)"
  by (simp add: app_download_opts_def)

lemma backend_download_opts_str:
  "backend_download_opts (JStr t) (JStr q) d =
     Inr (if t = ''audio'' then audio_opts d
          else video_opts (case map_of backend_quality_map q of
                             None \<Rightarrow> ''best[filesize<50M]/best'' | Some f \<Rightarrow> f) d)"
  by (simp add: backend_download_opts_def)

lemma app_quality_unknown:
  "q \<notin> {''best'', ''720p'', ''480p'', ''360p'', ''worst''} \<Longrightarrow> map_of app_quality_map q = None"
  by (simp add: app_quality_map_def)

lemma backend_quality_unknown:
  "q \<notin> {''best'', ''720p'', ''480p'', ''360p'', ''worst''} \<Longrightarrow> map_of backend_quality_map q = None"
  by (simp add: backend_quality_map_def)

lemma app_download_video_calls:
  assumes "dict_get data ''url'' JNull = Inr url" and "truthy url"
    and "valid_host url = Inr True"
    and "dict_get data ''type'' (JStr ''video'') = Inr download_type"
    and "dict_get data ''quality'' (JStr ''best'') = Inr quality"
    and "mkdtemp ''yt_download_'' random_part now (tmp w) = Inr (temp_dir, fs1)"
    and "app_download_opts download_type quality temp_dir = Inr opts"
  shows "calls (snd (app_download_video max_file_size ydl random_part now data w))
           = calls w @ [(opts, url, True)]"
proof -
  obtain written outcome where y: "ydl opts url True = (written, outcome)"
    by (cases "ydl opts url True")
  show ?thesis
  proof (cases outcome)
    case (Inl x)
    with app_download_failure [OF assms, where ydl = ydl and written = written and x = x] y
    show ?thesis by simp
  next
    case (Inr info)
    with app_download_success [OF assms, where ydl = ydl and written = written and info = info] y
    show ?thesis by simp
  qed
qed

lemma backend_download_video_calls:
  assumes "dict_get data ''url'' JNull = Inr url" and "truthy url"
    and "dict_get data ''type'' (JStr ''video'') = Inr download_type"
    and "dict_get data ''quality'' (JStr ''best'') = Inr quality"
    and "mkdtemp ''yt_download_'' random_part now (tmp w) = Inr (temp_dir, fs1)"
    and "backend_download_opts download_type quality temp_dir = Inr opts"
  shows "calls (snd (backend_download_video ydl random_part now data w))
           = calls w @ [(opts, url, True)]"
proof -
  obtain written outcome where y: "ydl opts url True = (written, outcome)"
    by (cases "ydl opts url True")
  show ?thesis
  proof (cases outcome)
    case (Inl x)
    with backend_download_failure [OF assms, where ydl = ydl and written = written and x = x] y
    show ?thesis by simp
  next
    case (Inr info)
    with backend_download_success [OF assms, where ydl = ydl and written = written and info = info] y
    show ?thesis by simp
  qed
qed

text \<open>
  C10, amended: a download request that has passed the URL checks and got its directory,
  with strings for \<^verbatim>\<open>type\<close> and \<^verbatim>\<open>quality\<close>, always reaches the collaborator: no
  value of the two is rejected. The type \<^verbatim>\<open>audio\<close> gives the audio options, every
  other type the video options. A quality outside best, 720p, 480p, 360p and worst
  gives the fixed format expression \<^verbatim>\<open>best[filesize<100M]/best\<close> in \<^verbatim>\<open>app.py\<close> and
  \<^verbatim>\<open>best[filesize<50M]/best\<close> in \<^verbatim>\<open>backend/app.py\<close>.
\<close>

theorem unrecognized_type_and_quality:
  assumes "dict_get data ''url'' JNull = Inr url" and "truthy url"
    and "valid_host url = Inr True"
    and "dict_get data ''type'' (JStr ''video'') = Inr (JStr t)"
    and "dict_get data ''quality'' (JStr ''best'') = Inr (JStr q)"
    and "mkdtemp ''yt_download_'' random_part now (tmp w) = Inr (temp_dir, fs1)"
  shows "\<exists>opts opts'.
       app_download_opts (JStr t) (JStr q) temp_dir = Inr opts
     \<and> backend_download_opts (JStr t) (JStr q) temp_dir = Inr opts'
     \<and> calls (snd (app_download_video max_file_size ydl random_part now data w))
         = calls w @ [(opts, url, True)]
     \<and> calls (snd (backend_download_video ydl random_part now data w))
         = calls w @ [(opts', url, True)]
     \<and> (t = ''audio'' \<longrightarrow> opts = audio_opts temp_dir \<and> opts' = audio_opts temp_dir)
     \<and> (t \<noteq> ''audio'' \<longrightarrow> (\<exists>f f'. opts = video_opts f temp_dir \<and> opts' = video_opts f' temp_dir))
     \<and> (t \<noteq> ''audio'' \<and> q \<notin> {''best'', ''720p'', ''480p'', ''360p'', ''worst''}
          \<longrightarrow> opts = video_opts ''best[filesize<100M]/best'' temp_dir
             \<and> opts' = video_opts ''best[filesize<50M]/best'' temp_dir)"
proof -
  let ?opts = "if t = ''audio'' then audio_opts temp_dir
          else video_opts (case map_of app_quality_map q of
                             None \<Rightarrow> ''best[filesize<100M]/best'' | Some f \<Rightarrow> f) temp_dir"
  let ?opts' = "if t = ''audio'' then audio_opts temp_dir
          else video_opts (case map_of backend_quality_map q of
                             None \<Rightarrow> ''best[filesize<50M]/best'' | Some f \<Rightarrow> f) temp_dir"
  have a: "app_download_opts (JStr t) (JStr q) temp_dir = Inr ?opts"
    by (rule app_download_opts_str)
  have b: "backend_download_opts (JStr t) (JStr q) temp_dir = Inr ?opts'"
    by (rule backend_download_opts_str)
  have c: "calls (snd (app_download_video max_file_size ydl random_part now data w))
         = calls w @ [(?opts, url, True)]"
    using assms a by (rule app_download_video_calls)
  have d: "calls (snd (backend_download_video ydl random_part now data w))
         = calls w @ [(?opts', url, True)]"
    using assms(1,2,4,5,6) b by (rule backend_download_video_calls)
  have e: "t \<noteq> ''audio'' \<and> q \<notin> {''best'', ''720p'', ''480p'', ''360p'', ''worst''}
          \<longrightarrow> ?opts = video_opts ''best[filesize<100M]/best'' temp_dir
             \<and> ?opts' = video_opts ''best[filesize<50M]/best'' temp_dir"
    using app_quality_unknown [of q] backend_quality_unknown [of q] by simp
  have f: "t \<noteq> ''audio'' \<longrightarrow> (\<exists>f f'. ?opts = video_opts f temp_dir \<and> ?opts' = video_opts f' temp_dir)"
    by auto
  have g: "t = ''audio'' \<longrightarrow> ?opts = audio_opts temp_dir \<and> ?opts' = audio_opts temp_dir"
    by simp
  show ?thesis
    by (rule exI [of _ "?opts"], rule exI [of _ "?opts'"]) (intro conjI a b c d g f e)
qed

text \<open>
  The type \<^verbatim>\<open>movie\<close> and the quality \<^verbatim>\<open>4k\<close>: both handlers call the collaborator
  with the video options and their fallback expression.
\<close>

theorem unrecognized_type_and_quality_witness:
  "calls (snd (app_download_video default_MAX_FILE_SIZE failing_ydl ''ab12'' 1000 odd_request
                 empty_world))
     = [(video_opts ''best[filesize<100M]/best'' ''yt_download_ab12'',
         JStr ''https://youtu.be/abc'', True)]
   \<and> calls (snd (backend_download_video failing_ydl ''ab12'' 1000 odd_request empty_world))
     = [(video_opts ''best[filesize<50M]/best'' ''yt_download_ab12'',
         JStr ''https://youtu.be/abc'', True)]"
proof -
  have 1: "dict_get odd_request ''url'' JNull = Inr (JStr ''https://youtu.be/abc'')"
    and 2: "truthy (JStr ''https://youtu.be/abc'')"
    and 3: "valid_host (JStr ''https://youtu.be/abc'') = Inr True"
    and 4: "dict_get odd_request ''type'' (JStr ''video'') = Inr (JStr ''movie'')"
    and 5: "dict_get odd_request ''quality'' (JStr ''best'') = Inr (JStr ''4k'')"
    and 6: "mkdtemp ''yt_download_'' ''ab12'' 1000 (tmp empty_world)
              = Inr (''yt_download_ab12'', [new_dir ''yt_download_ab12'' 1000 []])"
    by (simp_all add: odd_request_def empty_world_def mkdtemp_def Let_def valid_host_def
        sublist_code(3))
  have 7: "''movie'' \<noteq> ''audio'' \<and> ''4k'' \<notin> {''best'', ''720p'', ''480p'', ''360p'', ''worst''}"
    by simp
  from unrecognized_type_and_quality [OF 1 2 3 4 5 6, of default_MAX_FILE_SIZE failing_ydl]
  obtain opts opts' where
    "calls (snd (app_download_video default_MAX_FILE_SIZE failing_ydl ''ab12'' 1000 odd_request
                   empty_world)) = calls empty_world @ [(opts, JStr ''https://youtu.be/abc'', True)]"
    and "calls (snd (backend_download_video failing_ydl ''ab12'' 1000 odd_request empty_world))
           = calls empty_world @ [(opts', JStr ''https://youtu.be/abc'', True)]"
    and "''movie'' \<noteq> ''audio'' \<and> ''4k'' \<notin> {''best'', ''720p'', ''480p'', ''360p'', ''worst''}
          \<longrightarrow> opts = video_opts ''best[filesize<100M]/best'' ''yt_download_ab12''
             \<and> opts' = video_opts ''best[filesize<50M]/best'' ''yt_download_ab12''"
    by blast
  with 7 show ?thesis by (simp add: empty_world_def)
qed

text \<open>
  The claim has the fallback be the expression of \<^verbatim>\<open>best\<close>. In \<^verbatim>\<open>app.py\<close> the two
  differ: the table's entry for \<^verbatim>\<open>best\<close> caps its second alternative at 1080 lines,
  the fallback does not.
\<close>

theorem app_fallback_is_not_best_counterexample:
  "app_download_opts (JStr ''video'') (JStr ''4k'') ''yt_download_ab12''
     = Inr (video_opts ''best[filesize<100M]/best'' ''yt_download_ab12'')
   \<and> app_download_opts (JStr ''video'') (JStr ''best'') ''yt_download_ab12''
     = Inr (video_opts ''best[filesize<100M]/best[height<=1080]'' ''yt_download_ab12'')
   \<and> app_download_opts (JStr ''video'') (JStr ''4k'') ''yt_download_ab12''
     \<noteq> app_download_opts (JStr ''video'') (JStr ''best'') ''yt_download_ab12''"
  by (simp add: app_download_opts_def app_quality_map_def video_opts_def)

section \<open>The fields of the video metadata\<close>

lemma strip_Unknown: "strip ''Unknown'' = ''Unknown''"
  by (simp add: strip_def is_space_def)

lemma app_video_info_ok:
  assumes "i_title info \<noteq> Null" and "i_uploader info \<noteq> Null" and "i_formats info \<noteq> Null"
  shows "app_video_info url info =
     Inr \<lparr>v_title = strip (case i_title info of Val s \<Rightarrow> s | _ \<Rightarrow> ''Unknown''),
          v_duration = get_or (i_duration info) 0,
          v_uploader = strip (case i_uploader info of Val s \<Rightarrow> s | _ \<Rightarrow> ''Unknown''),
          v_view_count = get (i_view_count info),
          v_description = description_of (i_description info),
          v_thumbnail = get (i_thumbnail info),
          v_upload_date = get (i_upload_date info),
          v_formats_available = (case i_formats info of Val fs \<Rightarrow> length fs | _ \<Rightarrow> 0),
          v_id = get_or (i_id info) [],
          v_webpage_url = webpage_url_of (i_webpage_url info) url\<rparr>"
  using assms
  by (cases "i_title info"; cases "i_uploader info"; cases "i_formats info")
     (simp_all add: app_video_info_def)

lemma app_get_video_info_ok:
  assumes "dict_get data ''url'' JNull = Inr url" and "truthy url"
    and "valid_host url = Inr True"
    and "snd (ydl app_info_opts url False) = Inr info"
    and "app_video_info url info = Inr v"
  shows "app_get_video_info ydl data w =
           (VideoInfoResponse v, w\<lparr>calls := calls w @ [(app_info_opts, url, False)]\<rparr>)"
proof -
  have "truthy data" using assms(1,2) by (rule truthy_data)
  with assms show ?thesis
    by (simp add: app_get_video_info_def app_get_video_info_try_def Let_def)
qed

lemma backend_video_info_ok:
  assumes "i_formats info \<noteq> Null"
  shows "backend_video_info info =
     Inr \<lparr>bv_title = get_or (i_title info) ''Unknown'',
          bv_duration = get_or (i_duration info) 0,
          bv_uploader = get_or (i_uploader info) ''Unknown'',
          bv_view_count = get (i_view_count info),
          bv_description = description_of (i_description info),
          bv_thumbnail = get (i_thumbnail info),
          bv_upload_date = get (i_upload_date info),
          bv_formats_available = (case i_formats info of Val fs \<Rightarrow> length fs | _ \<Rightarrow> 0)\<rparr>"
  using assms by (cases "i_formats info") (simp_all add: backend_video_info_def)

lemma backend_get_video_info_ok:
  assumes "dict_get data ''url'' JNull = Inr url" and "truthy url"
    and "snd (ydl backend_info_opts url False) = Inr info"
    and "backend_video_info info = Inr v"
  shows "backend_get_video_info ydl data w =
           (BackendVideoInfoResponse v,
            w\<lparr>calls := calls w @ [(backend_info_opts, url, False)]\<rparr>)"
  using assms
  by (simp add: backend_get_video_info_def backend_get_video_info_try_def Let_def)

text \<open>
  C8, amended: the request has passed the checks of \<^verbatim>\<open>app.py\<close> and the collaborator
  has returned an info dictionary in which \<^verbatim>\<open>title\<close>, \<^verbatim>\<open>uploader\<close> and
  \<^verbatim>\<open>formats\<close> are not \<^verbatim>\<open>None\<close>. The answer is then the dictionary of exactly
  ten fields: title and uploader stripped, duration, view count, the description cut to
  200 characters and followed by three dots, thumbnail, upload date, the number of
  formats, id and page URL. A field that is missing defaults to \<^verbatim>\<open>Unknown\<close> (title,
  uploader), to zero (duration, number of formats), to the empty string (description,
  id), to \<^verbatim>\<open>None\<close> (view count, thumbnail, upload date) and to the URL of the request
  (page URL). \<^verbatim>\<open>backend/app.py\<close> answers with the first eight of these fields, title
  and uploader as the collaborator gave them.
\<close>

theorem video_info_fields:
  assumes "dict_get data ''url'' JNull = Inr url" and "truthy url"
    and "valid_host url = Inr True"
    and "snd (ydl app_info_opts url False) = Inr info"
    and "i_title info \<noteq> Null" and "i_uploader info \<noteq> Null" and "i_formats info \<noteq> Null"
  shows "(\<exists>v. app_get_video_info ydl data w =
           (VideoInfoResponse v, w\<lparr>calls := calls w @ [(app_info_opts, url, False)]\<rparr>)
     \<and> (\<forall>s. i_title info = Val s \<longrightarrow> v_title v = strip s)
     \<and> (i_title info = Absent \<longrightarrow> v_title v = ''Unknown'')
     \<and> (\<forall>n. i_duration info = Val n \<longrightarrow> v_duration v = Some n)
     \<and> (i_duration info = Absent \<longrightarrow> v_duration v = Some 0)
     \<and> (\<forall>s. i_uploader info = Val s \<longrightarrow> v_uploader v = strip s)
     \<and> (i_uploader info = Absent \<longrightarrow> v_uploader v = ''Unknown'')
     \<and> (\<forall>n. i_view_count info = Val n \<longrightarrow> v_view_count v = Some n)
     \<and> (i_view_count info = Absent \<longrightarrow> v_view_count v = None)
     \<and> (\<forall>s. i_description info = Val s \<and> s \<noteq> [] \<longrightarrow> v_description v = take 200 s @ ''...'')
     \<and> (i_description info = Absent \<longrightarrow> v_description v = [])
     \<and> (\<forall>s. i_thumbnail info = Val s \<longrightarrow> v_thumbnail v = Some s)
     \<and> (i_thumbnail info = Absent \<longrightarrow> v_thumbnail v = None)
     \<and> (\<forall>s. i_upload_date info = Val s \<longrightarrow> v_upload_date v = Some s)
     \<and> (i_upload_date info = Absent \<longrightarrow> v_upload_date v = None)
     \<and> (\<forall>fs. i_formats info = Val fs \<longrightarrow> v_formats_available v = length fs)
     \<and> (i_formats info = Absent \<longrightarrow> v_formats_available v = 0)
     \<and> (\<forall>s. i_id info = Val s \<longrightarrow> v_id v = Some s)
     \<and> (i_id info = Absent \<longrightarrow> v_id v = Some [])
     \<and> (\<forall>s. i_webpage_url info = Val s \<longrightarrow> v_webpage_url v = JStr s)
     \<and> (i_webpage_url info = Absent \<longrightarrow> v_webpage_url v = url))
   \<and> (snd (ydl' backend_info_opts url False) = Inr info \<longrightarrow>
        (\<exists>b. backend_get_video_info ydl' data w =
           (BackendVideoInfoResponse b,
            w\<lparr>calls := calls w @ [(backend_info_opts, url, False)]\<rparr>)
         \<and> (\<forall>s. i_title info = Val s \<longrightarrow> bv_title b = Some s)
         \<and> (i_title info = Absent \<longrightarrow> bv_title b = Some ''Unknown'')
         \<and> (\<forall>s. i_uploader info = Val s \<longrightarrow> bv_uploader b = Some s)
         \<and> (i_uploader info = Absent \<longrightarrow> bv_uploader b = Some ''Unknown'')
         \<and> (i_duration info = Absent \<longrightarrow> bv_duration b = Some 0)
         \<and> (i_view_count info = Absent \<longrightarrow> bv_view_count b = None)
         \<and> (i_description info = Absent \<longrightarrow> bv_description b = [])
         \<and> (i_thumbnail info = Absent \<longrightarrow> bv_thumbnail b = None)
         \<and> (i_upload_date info = Absent \<longrightarrow> bv_upload_date b = None)
         \<and> (i_formats info = Absent \<longrightarrow> bv_formats_available b = 0)))"
proof (intro conjI impI)
  note v = app_video_info_ok [OF assms(5,6,7), of url]
  note r = app_get_video_info_ok [where ydl = ydl and w = w, OF assms(1,2,3,4) v]
  show "\<exists>v. app_get_video_info ydl data w =
           (VideoInfoResponse v, w\<lparr>calls := calls w @ [(app_info_opts, url, False)]\<rparr>)
     \<and> (\<forall>s. i_title info = Val s \<longrightarrow> v_title v = strip s)
     \<and> (i_title info = Absent \<longrightarrow> v_title v = ''Unknown'')
     \<and> (\<forall>n. i_duration info = Val n \<longrightarrow> v_duration v = Some n)
     \<and> (i_duration info = Absent \<longrightarrow> v_duration v = Some 0)
     \<and> (\<forall>s. i_uploader info = Val s \<longrightarrow> v_uploader v = strip s)
     \<and> (i_uploader info = Absent \<longrightarrow> v_uploader v = ''Unknown'')
     \<and> (\<forall>n. i_view_count info = Val n \<longrightarrow> v_view_count v = Some n)
     \<and> (i_view_count info = Absent \<longrightarrow> v_view_count v = None)
     \<and> (\<forall>s. i_description info = Val s \<and> s \<noteq> [] \<longrightarrow> v_description v = take 200 s @ ''...'')
     \<and> (i_description info = Absent \<longrightarrow> v_description v = [])
     \<and> (\<forall>s. i_thumbnail info = Val s \<longrightarrow> v_thumbnail v = Some s)
     \<and> (i_thumbnail info = Absent \<longrightarrow> v_thumbnail v = None)
     \<and> (\<forall>s. i_upload_date info = Val s \<longrightarrow> v_upload_date v = Some s)
     \<and> (i_upload_date info = Absent \<longrightarrow> v_upload_date v = None)
     \<and> (\<forall>fs. i_formats info = Val fs \<longrightarrow> v_formats_available v = length fs)
     \<and> (i_formats info = Absent \<longrightarrow> v_formats_available v = 0)
     \<and> (\<forall>s. i_id info = Val s \<longrightarrow> v_id v = Some s)
     \<and> (i_id info = Absent \<longrightarrow> v_id v = Some [])
     \<and> (\<forall>s. i_webpage_url info = Val s \<longrightarrow> v_webpage_url v = JStr s)
     \<and> (i_webpage_url info = Absent \<longrightarrow> v_webpage_url v = url)"
    by (rule exI, rule conjI, rule r) (simp add: strip_Unknown)
next
  assume y: "snd (ydl' backend_info_opts url False) = Inr info"
  note b = backend_video_info_ok [OF assms(7)]
  note r = backend_get_video_info_ok [where ydl = ydl' and w = w, OF assms(1,2) y b]
  show "\<exists>b. backend_get_video_info ydl' data w =
           (BackendVideoInfoResponse b,
            w\<lparr>calls := calls w @ [(backend_info_opts, url, False)]\<rparr>)
         \<and> (\<forall>s. i_title info = Val s \<longrightarrow> bv_title b = Some s)
         \<and> (i_title info = Absent \<longrightarrow> bv_title b = Some ''Unknown'')
         \<and> (\<forall>s. i_uploader info = Val s \<longrightarrow> bv_uploader b = Some s)
         \<and> (i_uploader info = Absent \<longrightarrow> bv_uploader b = Some ''Unknown'')
         \<and> (i_duration info = Absent \<longrightarrow> bv_duration b = Some 0)
         \<and> (i_view_count info = Absent \<longrightarrow> bv_view_count b = None)
         \<and> (i_description info = Absent \<longrightarrow> bv_description b = [])
         \<and> (i_thumbnail info = Absent \<longrightarrow> bv_thumbnail b = None)
         \<and> (i_upload_date info = Absent \<longrightarrow> bv_upload_date b = None)
         \<and> (i_formats info = Absent \<longrightarrow> bv_formats_available b = 0)"
    by (rule exI, rule conjI, rule r) simp
qed

text \<open>
  The collaborator returns a title with blanks around it and a short description:
  the title comes back stripped, the description with its three dots, the missing
  uploader as \<^verbatim>\<open>Unknown\<close> and the missing page URL as the URL of the request. The
  backend variant returns the title as it is.
\<close>

theorem video_info_fields_witness:
  "(\<exists>v. app_get_video_info cats_ydl youtube_request empty_world =
           (VideoInfoResponse v,
            empty_world\<lparr>calls := [(app_info_opts, JStr ''https://youtu.be/abc'', False)]\<rparr>)
      \<and> v_title v = ''Cats'' \<and> v_uploader v = ''Unknown''
      \<and> v_description v = ''Two cats....''
      \<and> v_webpage_url v = JStr ''https://youtu.be/abc'')
   \<and> (\<exists>b. backend_get_video_info cats_ydl youtube_request empty_world =
           (BackendVideoInfoResponse b,
            empty_world\<lparr>calls := [(backend_info_opts, JStr ''https://youtu.be/abc'', False)]\<rparr>)
      \<and> bv_title b = Some ''  Cats  '')"
proof -
  have 1: "dict_get youtube_request ''url'' JNull = Inr (JStr ''https://youtu.be/abc'')"
    and 2: "truthy (JStr ''https://youtu.be/abc'')"
    and 3: "valid_host (JStr ''https://youtu.be/abc'') = Inr True"
    and 4: "snd (cats_ydl app_info_opts (JStr ''https://youtu.be/abc'') False) = Inr cats_info"
    and 5: "i_title cats_info \<noteq> Null" and 6: "i_uploader cats_info \<noteq> Null"
    and 7: "i_formats cats_info \<noteq> Null"
    by (simp_all add: youtube_request_def valid_host_def sublist_code(3) cats_ydl_def
        cats_info_def empty_info_def)
  have facts: "i_title cats_info = Val ''  Cats  '' \<and> i_uploader cats_info = Absent
      \<and> i_description cats_info = Val ''Two cats.'' \<and> i_webpage_url cats_info = Absent
      \<and> snd (cats_ydl backend_info_opts (JStr ''https://youtu.be/abc'') False) = Inr cats_info
      \<and> strip ''  Cats  '' = ''Cats'' \<and> calls empty_world = []"
    by (simp add: cats_info_def empty_info_def cats_ydl_def strip_def is_space_def
        empty_world_def)
  note t = video_info_fields [where ydl = cats_ydl and ydl' = cats_ydl and w = empty_world,
      OF 1 2 3 4 5 6 7]
  from t [THEN conjunct1] facts
  have a: "\<exists>v. app_get_video_info cats_ydl youtube_request empty_world =
           (VideoInfoResponse v,
            empty_world\<lparr>calls := [(app_info_opts, JStr ''https://youtu.be/abc'', False)]\<rparr>)
      \<and> v_title v = ''Cats'' \<and> v_uploader v = ''Unknown''
      \<and> v_description v = ''Two cats....''
      \<and> v_webpage_url v = JStr ''https://youtu.be/abc''"
    apply (elim exE conjE)
    subgoal for v
      apply (rule exI [of _ v])
      apply simp
      done
    done
  have y: "snd (cats_ydl backend_info_opts (JStr ''https://youtu.be/abc'') False) = Inr cats_info"
    by (simp add: cats_ydl_def)
  from t [THEN conjunct2, THEN mp, OF y] facts
  have b: "\<exists>b. backend_get_video_info cats_ydl youtube_request empty_world =
           (BackendVideoInfoResponse b,
            empty_world\<lparr>calls := [(backend_info_opts, JStr ''https://youtu.be/abc'', False)]\<rparr>)
      \<and> bv_title b = Some ''  Cats  ''"
    apply (elim exE conjE)
    subgoal for b
      apply (rule exI [of _ b])
      apply simp
      done
    done
  from a b show ?thesis by (rule conjI)
qed

text \<open>
  The claim has every missing field default to an empty value, zero or \<^verbatim>\<open>Unknown\<close>.
  With no key in the collaborator's dictionary the page URL of the answer is the URL
  of the request.
\<close>

theorem video_info_default_url_counterexample:
  "app_get_video_info bare_ydl youtube_request empty_world =
     (VideoInfoResponse
        \<lparr>v_title = ''Unknown'', v_duration = Some 0, v_uploader = ''Unknown'',
         v_view_count = None, v_description = [], v_thumbnail = None,
         v_upload_date = None, v_formats_available = 0, v_id = Some [],
         v_webpage_url = JStr ''https://youtu.be/abc''\<rparr>,
      \<lparr>tmp = [], calls = [(app_info_opts, JStr ''https://youtu.be/abc'', False)],
       timers = []\<rparr>)"
  by (simp add: app_get_video_info_def app_get_video_info_try_def app_video_info_def
      youtube_request_def valid_host_def sublist_code(3) bare_ydl_def empty_info_def
      empty_world_def strip_Unknown Let_def)

section \<open>The list of formats\<close>

text \<open>The loop of \<^verbatim>\<open>app.py\<close> keeps the first entry of every key.\<close>

lemma app_collect_formats_eq:
  "app_collect_formats raw seen acc =
     acc @ map app_format_entry (first_by_key (filter (\<lambda>g. format_key g \<notin> seen) raw))"
proof (induction raw arbitrary: seen acc)
  case Nil
  show ?case by simp
next
  case (Cons fmt rest)
  have "filter (\<lambda>g. format_key g \<noteq> format_key fmt) (filter (\<lambda>g. format_key g \<notin> seen) rest)
      = filter (\<lambda>g. format_key g \<notin> insert (format_key fmt) seen) rest"
    by (simp add: conj_commute)
  then show ?case
    by (simp add: Cons.IH)
qed

lemma set_first_by_key: "set (first_by_key xs) \<subseteq> set xs"
  by (induction xs rule: first_by_key.induct) auto

lemma keys_first_by_key: "format_key ` set (first_by_key xs) = format_key ` set xs"
proof (induction xs rule: first_by_key.induct)
  case 1
  show ?case by simp
next
  case (2 fmt rest)
  then show ?case by auto
qed

lemma distinct_first_by_key: "distinct (map format_key (first_by_key xs))"
proof (induction xs rule: first_by_key.induct)
  case 1
  show ?case by simp
next
  case (2 fmt rest)
  have "format_key fmt \<notin> format_key ` set (first_by_key (filter (\<lambda>g. format_key g \<noteq> format_key fmt) rest))"
    using set_first_by_key [of "filter (\<lambda>g. format_key g \<noteq> format_key fmt) rest"] by auto
  with 2 show ?case by simp
qed

lemma first_by_key_is_first:
  "f \<in> set (first_by_key xs) \<Longrightarrow> f = hd (filter (\<lambda>g. format_key g = format_key f) xs)"
proof (induction xs rule: first_by_key.induct)
  case 1
  then show ?case by simp
next
  case (2 fmt rest)
  show ?case
  proof (cases "f = fmt")
    case True
    then show ?thesis by simp
  next
    case False
    with 2(2) have in_rest: "f \<in> set (first_by_key (filter (\<lambda>g. format_key g \<noteq> format_key fmt) rest))"
      by simp
    with set_first_by_key [of "filter (\<lambda>g. format_key g \<noteq> format_key fmt) rest"]
    have ne: "format_key f \<noteq> format_key fmt" by auto
    have "filter (\<lambda>g. format_key g = format_key f) (filter (\<lambda>g. format_key g \<noteq> format_key fmt) rest)
        = filter (\<lambda>g. format_key g = format_key f) rest"
      using ne by (auto intro: filter_cong)
    with 2(1) [OF in_rest] ne show ?thesis by auto
  qed
qed

lemma app_format_list_length: "length (app_format_list raw) \<le> 20"
  by (simp add: app_format_list_def)

lemma app_format_list_sorted: "sorted (map app_sort_key (app_format_list raw))"
  unfolding app_format_list_def take_map [symmetric]
  by (rule sorted_wrt_take) (rule sorted_sort_key)

lemma app_format_list_order:
  assumes "i < j" and "j < length (app_format_list raw)"
  shows "(o_type (app_format_list raw ! i) = ''audio'' \<longrightarrow> o_type (app_format_list raw ! j) = ''audio'')
       \<and> (o_type (app_format_list raw ! j) \<noteq> ''audio''
            \<longrightarrow> height_or_0 (app_format_list raw ! j) \<le> height_or_0 (app_format_list raw ! i))"
proof -
  have "app_sort_key (app_format_list raw ! i) \<le> app_sort_key (app_format_list raw ! j)"
    using sorted_nth_mono [OF app_format_list_sorted [of raw], of i j] assms by simp
  then show ?thesis
    by (auto simp add: app_sort_key_def)
qed


lemma app_get_formats_ok:
  assumes "dict_get data ''url'' JNull = Inr url" and "truthy url"
    and "snd (ydl formats_opts url False) = Inr info" and "i_formats info = Val raw"
  shows "app_get_formats ydl data w =
           (FormatsResponse (app_format_list raw),
            w\<lparr>calls := calls w @ [(formats_opts, url, False)]\<rparr>)"
proof -
  have "truthy data" using assms(1,2) by (rule truthy_data)
  with assms show ?thesis
    by (simp add: app_get_formats_def app_get_formats_try_def Let_def)
qed

lemma backend_get_formats_ok:
  assumes "dict_get data ''url'' JNull = Inr url" and "truthy url"
    and "snd (ydl formats_opts url False) = Inr info" and "i_formats info = Val raw"
  shows "backend_get_formats ydl data w =
           (BackendFormatsResponse (backend_format_list raw),
            w\<lparr>calls := calls w @ [(formats_opts, url, False)]\<rparr>)"
  using assms
  by (simp add: backend_get_formats_def backend_get_formats_try_def Let_def)

text \<open>
  C3, amended: the collaborator has returned the raw format list \<open>raw\<close>. The formats
  handler of \<^verbatim>\<open>app.py\<close> answers with \<open>app_format_list raw\<close>: the raw list
  deduplicated by (height, extension, video or audio) keeping the first occurrence of
  every key, sorted with a stable sort so that every audio format comes after every
  video format and video formats are in descending order of height (a missing height
  counting as 0), and cut to the first 20 entries. The formats handler of
  \<^verbatim>\<open>backend/app.py\<close> answers with every raw format that has a video or an audio
  codec, in the collaborator's order: not deduplicated, not sorted, not cut.
\<close>

theorem format_listing:
  assumes "dict_get data ''url'' JNull = Inr url" and "truthy url"
    and "snd (ydl formats_opts url False) = Inr info" and "i_formats info = Val raw"
  shows "app_get_formats ydl data w =
           (FormatsResponse (app_format_list raw),
            w\<lparr>calls := calls w @ [(formats_opts, url, False)]\<rparr>)
     \<and> app_format_list raw
         = take 20 (sort_key app_sort_key (map app_format_entry (first_by_key raw)))
     \<and> distinct (map format_key (first_by_key raw))
     \<and> format_key ` set (first_by_key raw) = format_key ` set raw
     \<and> (\<forall>f\<in>set (first_by_key raw).
           f \<in> set raw \<and> f = hd (filter (\<lambda>g. format_key g = format_key f) raw))
     \<and> length (app_format_list raw) \<le> 20
     \<and> (\<forall>i j. i < j \<and> j < length (app_format_list raw) \<longrightarrow>
           (o_type (app_format_list raw ! i) = ''audio''
              \<longrightarrow> o_type (app_format_list raw ! j) = ''audio'')
         \<and> (o_type (app_format_list raw ! j) \<noteq> ''audio''
              \<longrightarrow> height_or_0 (app_format_list raw ! j)
                    \<le> height_or_0 (app_format_list raw ! i)))
     \<and> backend_get_formats ydl data w =
           (BackendFormatsResponse
              (map backend_format_entry
                 (filter (\<lambda>fmt. f_vcodec fmt \<noteq> Some ''none'' \<or> f_acodec fmt \<noteq> Some ''none'')
                    raw)),
            w\<lparr>calls := calls w @ [(formats_opts, url, False)]\<rparr>)"
proof -
  have 1: "app_format_list raw
         = take 20 (sort_key app_sort_key (map app_format_entry (first_by_key raw)))"
    by (simp add: app_format_list_def app_collect_formats_eq)
  have 2: "\<forall>f\<in>set (first_by_key raw).
           f \<in> set raw \<and> f = hd (filter (\<lambda>g. format_key g = format_key f) raw)"
    using set_first_by_key [of raw] first_by_key_is_first [of _ raw] by blast
  have 3: "\<forall>i j. i < j \<and> j < length (app_format_list raw) \<longrightarrow>
           (o_type (app_format_list raw ! i) = ''audio''
              \<longrightarrow> o_type (app_format_list raw ! j) = ''audio'')
         \<and> (o_type (app_format_list raw ! j) \<noteq> ''audio''
              \<longrightarrow> height_or_0 (app_format_list raw ! j)
                    \<le> height_or_0 (app_format_list raw ! i))"
    using app_format_list_order [of _ _ raw] by blast
  note 4 = app_get_formats_ok [where ydl = ydl and w = w, OF assms]
  note 5 = backend_get_formats_ok [where ydl = ydl and w = w, OF assms,
      unfolded backend_format_list_def]
  show ?thesis
    by (intro conjI 1 2 3 4 5 distinct_first_by_key keys_first_by_key app_format_list_length)
qed

lemma raw_formats_first: "first_by_key raw_formats = [audio_m4a, video_720, video_1080]"
  by (simp add: raw_formats_def audio_m4a_def video_720_def video_720_again_def video_1080_def
      format_key_def format_type_def)

lemma raw_formats_sorted:
  "sort_key app_sort_key (map app_format_entry [audio_m4a, video_720, video_1080])
     = map app_format_entry [video_1080, video_720, audio_m4a]"
  by (simp add: audio_m4a_def video_720_def video_1080_def app_format_entry_def
      app_sort_key_def height_or_0_def format_type_def)

text \<open>
  For \<open>raw_formats\<close> the answer of \<^verbatim>\<open>app.py\<close> is the 1080-line video, the first
  720-line video and the audio format, in this order.
\<close>

theorem format_listing_witness:
  "app_get_formats formats_ydl youtube_request empty_world =
     (FormatsResponse (map app_format_entry [video_1080, video_720, audio_m4a]),
      empty_world\<lparr>calls := [(formats_opts, JStr ''https://youtu.be/abc'', False)]\<rparr>)"
proof -
  have 1: "dict_get youtube_request ''url'' JNull = Inr (JStr ''https://youtu.be/abc'')"
    and 2: "truthy (JStr ''https://youtu.be/abc'')"
    and 3: "snd (formats_ydl formats_opts (JStr ''https://youtu.be/abc'') False)
              = Inr (empty_info\<lparr>i_formats := Val raw_formats\<rparr>)"
    and 4: "i_formats (empty_info\<lparr>i_formats := Val raw_formats\<rparr>) = Val raw_formats"
    by (simp_all add: youtube_request_def formats_ydl_def)
  note t = format_listing [where ydl = formats_ydl and w = empty_world, OF 1 2 3 4]
  have l: "app_format_list raw_formats = map app_format_entry [video_1080, video_720, audio_m4a]"
    unfolding t [THEN conjunct2, THEN conjunct1] raw_formats_first raw_formats_sorted
    by simp
  show ?thesis
    unfolding t [THEN conjunct1] l by (simp add: empty_world_def)
qed

text \<open>
  \<^verbatim>\<open>backend/app.py\<close> on the same list: all four entries in the order given, the audio
  format before the videos and both 720-line videos of one key.
\<close>

theorem backend_formats_unsorted_counterexample:
  "format_key video_720 = format_key video_720_again
   \<and> f_vcodec audio_m4a = Some ''none''
   \<and> backend_get_formats formats_ydl youtube_request empty_world =
       (BackendFormatsResponse
          (map backend_format_entry [audio_m4a, video_720, video_720_again, video_1080]),
        \<lparr>tmp = [], calls = [(formats_opts, JStr ''https://youtu.be/abc'', False)],
         timers = []\<rparr>)"
  by (simp add: backend_get_formats_def backend_get_formats_try_def backend_format_list_def
      youtube_request_def formats_ydl_def empty_world_def raw_formats_def audio_m4a_def
      video_720_def video_720_again_def video_1080_def format_key_def format_type_def Let_def)

end
